theory Spec2Isabelle
  imports Complex_Main "HOL-Library.Word"
begin

section \<open>JavaScript strings\<close>

text \<open>
  A JavaScript string is a sequence of UTF-16 code units. \<open>s.length\<close>, \<open>s[i]\<close> and
  \<open>s.slice\<close> count code units; the string iterator (\<open>for (const char of s)\<close>) and a
  regular expression with the \<open>u\<close> flag read code points, joining a leading and a trailing
  surrogate into one.
\<close>

type_synonym code_unit = "16 word"
type_synonym jsstring = "code_unit list"

definition utf16 :: "string \<Rightarrow> jsstring" where
  "utf16 cs = map of_char cs"

definition isLeadingSurrogate :: "code_unit \<Rightarrow> bool" where
  "isLeadingSurrogate u = (0xD800 \<le> u \<and> u \<le> 0xDBFF)"

definition isTrailingSurrogate :: "code_unit \<Rightarrow> bool" where
  "isTrailingSurrogate u = (0xDC00 \<le> u \<and> u \<le> 0xDFFF)"

text \<open>
  \<open>codePointAt xs\<close> is the code point at the head of \<open>xs\<close> with the number of code units
  it takes; \<open>None\<close> on the empty string.
\<close>

fun codePointAt :: "jsstring \<Rightarrow> (nat \<times> nat) option" where
  "codePointAt [] = None"
| "codePointAt [u] = Some (unat u, 1)"
| "codePointAt (u # v # r) =
     (if isLeadingSurrogate u \<and> isTrailingSurrogate v
      then Some ((unat u - 0xD800) * 0x400 + (unat v - 0xDC00) + 0x10000, 2)
      else Some (unat u, 1))"

text \<open>The string iterator: \<open>for (const char of s)\<close> yields one string per code point.\<close>

fun codePointStrings :: "jsstring \<Rightarrow> jsstring list" where
  "codePointStrings [] = []"
| "codePointStrings [u] = [[u]]"
| "codePointStrings (u # v # r) =
     (if isLeadingSurrogate u \<and> isTrailingSurrogate v
      then [u, v] # codePointStrings r
      else [u] # codePointStrings (v # r))"

text \<open>\<open>s.slice(a, b)\<close> for \<open>0 \<le> a\<close> and \<open>0 \<le> b\<close>.\<close>

definition slice_str :: "jsstring \<Rightarrow> nat \<Rightarrow> nat \<Rightarrow> jsstring" where
  "slice_str s a b = take (b - a) (drop a s)"

text \<open>\<open>s[i]\<close>: \<open>undefined\<close> out of range.\<close>

definition charAt :: "jsstring \<Rightarrow> nat \<Rightarrow> jsstring option" where
  "charAt s i = (if i < length s then Some [s ! i] else None)"

text \<open>\<open>s.endsWith("\n")\<close> and the removal of that newline, \<open>s.slice(0, -1)\<close>.\<close>

definition endsWithNewline :: "jsstring \<Rightarrow> bool" where
  "endsWithNewline s = (s \<noteq> [] \<and> last s = 0x0A)"

definition stripTrailingNewline :: "jsstring \<Rightarrow> jsstring" where
  "stripTrailingNewline s = (if endsWithNewline s then butlast s else s)"

text \<open>
  \<open>s.trim()\<close> removes the white space and line terminators of ECMAScript from both ends.
\<close>

definition isWhiteSpace :: "code_unit \<Rightarrow> bool" where
  "isWhiteSpace u =
     (u \<in> {0x09, 0x0A, 0x0B, 0x0C, 0x0D, 0x20, 0xA0, 0x1680, 0x2028, 0x2029,
            0x202F, 0x205F, 0x3000, 0xFEFF}
      \<or> (0x2000 \<le> u \<and> u \<le> 0x200A))"

definition trim :: "jsstring \<Rightarrow> jsstring" where
  "trim s = rev (dropWhile isWhiteSpace (rev (dropWhile isWhiteSpace s)))"

section \<open>The regular expressions of helper.ts\<close>

text \<open>
  Both expressions carry the \<open>g\<close> and \<open>u\<close> flags. The Unicode property
  \<open>Extended_Pictographic\<close> is a table of the JavaScript engine, not of this repository;
  every function below takes it as the parameter \<open>ep\<close>, a predicate on code points.
  \<open>Regional_Indicator\<close> is the fixed range U+1F1E6..U+1F1FF.

  A matcher takes the rest of the string from the position tried and returns the number of
  code units matched. None of the quantifiers can be made to backtrack, since nothing
  follows them in the pattern: each takes what it can.
\<close>

definition Regional_Indicator :: "nat \<Rightarrow> bool" where
  "Regional_Indicator c = (0x1F1E6 \<le> c \<and> c \<le> 0x1F1FF)"

text \<open>\<open>(?:\uFE0F)?\<close>\<close>

definition optFE0F :: "jsstring \<Rightarrow> nat" where
  "optFE0F xs = (case xs of [] \<Rightarrow> 0 | u # _ \<Rightarrow> if u = 0xFE0F then 1 else 0)"

text \<open>\<open>(?:\u200D\p{Extended_Pictographic}(?:\uFE0F)?)*\<close>\<close>

function zwjSequence :: "(nat \<Rightarrow> bool) \<Rightarrow> jsstring \<Rightarrow> nat" where
  "zwjSequence ep xs =
     (case xs of
        [] \<Rightarrow> 0
      | u # r \<Rightarrow>
          if u = 0x200D
          then (case codePointAt r of
                  None \<Rightarrow> 0
                | Some (c, n) \<Rightarrow>
                    if ep c
                    then 1 + n + optFE0F (drop n r)
                         + zwjSequence ep (drop (n + optFE0F (drop n r)) r)
                    else 0)
          else 0)"
  by pat_completeness auto
termination
  by (relation "measure (\<lambda>(ep, xs). length xs)") auto

text \<open>
  \<open>EMOJI_REGEX\<close>:
  \<open>\p{Extended_Pictographic}(?:\uFE0F)?(?:\u200D\p{Extended_Pictographic}(?:\uFE0F)?)*\<close>
  or else \<open>\p{Regional_Indicator}{2}\<close>.
\<close>

definition EMOJI_REGEX :: "(nat \<Rightarrow> bool) \<Rightarrow> jsstring \<Rightarrow> nat option" where
  "EMOJI_REGEX ep xs =
     (case codePointAt xs of
        None \<Rightarrow> None
      | Some (c, n) \<Rightarrow>
          if ep c
          then Some (n + optFE0F (drop n xs)
                     + zwjSequence ep (drop (n + optFE0F (drop n xs)) xs))
          else if Regional_Indicator c
          then (case codePointAt (drop n xs) of
                  None \<Rightarrow> None
                | Some (c2, n2) \<Rightarrow> if Regional_Indicator c2 then Some (n + n2) else None)
          else None)"

text \<open>\<open>(?:\uFE0F|\u200D\p{Extended_Pictographic})*\<close>\<close>

function simpleTail :: "(nat \<Rightarrow> bool) \<Rightarrow> jsstring \<Rightarrow> nat" where
  "simpleTail ep xs =
     (case xs of
        [] \<Rightarrow> 0
      | u # r \<Rightarrow>
          if u = 0xFE0F then 1 + simpleTail ep r
          else if u = 0x200D
          then (case codePointAt r of
                  None \<Rightarrow> 0
                | Some (c, n) \<Rightarrow> if ep c then 1 + n + simpleTail ep (drop n r) else 0)
          else 0)"
  by pat_completeness auto
termination
  by (relation "measure (\<lambda>(ep, xs). length xs)") auto

text \<open>
  \<open>SIMPLE_EMOJI_REGEX\<close>:
  \<open>\p{Extended_Pictographic}(?:\uFE0F|\u200D\p{Extended_Pictographic})*\<close>.
  It has no alternative for a pair of regional indicators.
\<close>

definition SIMPLE_EMOJI_REGEX :: "(nat \<Rightarrow> bool) \<Rightarrow> jsstring \<Rightarrow> nat option" where
  "SIMPLE_EMOJI_REGEX ep xs =
     (case codePointAt xs of
        None \<Rightarrow> None
      | Some (c, n) \<Rightarrow> if ep c then Some (n + simpleTail ep (drop n xs)) else None)"

text \<open>
  \<open>AdvanceStringIndex\<close> of ECMAScript with \<open>unicode = true\<close>: the next position a failed
  attempt moves to.
\<close>

definition advanceStringIndex :: "jsstring \<Rightarrow> nat \<Rightarrow> nat" where
  "advanceStringIndex s i =
     (if length s \<le> i + 1 then i + 1
      else (case codePointAt (drop i s) of None \<Rightarrow> i + 1 | Some (c, n) \<Rightarrow> i + n))"

lemma codePointAt_units:
  "codePointAt xs = Some (c, n) \<Longrightarrow> 0 < n \<and> n \<le> length xs"
  by (cases xs rule: codePointAt.cases) (auto split: if_splits)

lemma advanceStringIndex_gt: "i < advanceStringIndex s i"
  by (auto simp: advanceStringIndex_def dest: codePointAt_units split: option.splits)

text \<open>
  The search of \<open>RegExp.prototype.exec\<close>: the leftmost match at or after position \<open>i\<close>, as
  (index, end), or \<open>None\<close>.
\<close>

function execFrom :: "(jsstring \<Rightarrow> nat option) \<Rightarrow> jsstring \<Rightarrow> nat \<Rightarrow> (nat \<times> nat) option" where
  "execFrom re s i =
     (if length s < i then None
      else (case re (drop i s) of
              Some n \<Rightarrow> Some (i, i + n)
            | None \<Rightarrow> execFrom re s (advanceStringIndex s i)))"
  by pat_completeness auto
termination
proof (relation "measure (\<lambda>(re, s, i). length s + 1 - i)")
  show "wf (measure (\<lambda>(re, s, i). length s + 1 - i))"
    by simp
next
  fix re :: "jsstring \<Rightarrow> nat option" and s :: jsstring and i :: nat
  assume "\<not> length s < i"
  moreover have "i < advanceStringIndex s i"
    by (rule advanceStringIndex_gt)
  ultimately show "((re, s, advanceStringIndex s i), (re, s, i))
      \<in> measure (\<lambda>(re, s, i). length s + 1 - i)"
    by simp
qed

text \<open>
  \<open>regex.exec(s)\<close> on a global expression whose \<open>lastIndex\<close> is \<open>lastIndex\<close>: the match
  and the new \<open>lastIndex\<close>, which is the end of the match, or 0 when there is none.
\<close>

definition regexExec ::
  "(jsstring \<Rightarrow> nat option) \<Rightarrow> jsstring \<Rightarrow> nat \<Rightarrow> (nat \<times> nat) option \<times> nat" where
  "regexExec re s lastIndex =
     (case execFrom re s lastIndex of
        None \<Rightarrow> (None, 0)
      | Some (index, e) \<Rightarrow> (Some (index, e), e))"

declare zwjSequence.simps [simp del] simpleTail.simps [simp del] execFrom.simps [simp del]

lemma optFE0F_le: "optFE0F xs \<le> length xs"
  by (cases xs) (simp_all add: optFE0F_def)

lemma zwjSequence_le: "zwjSequence ep xs \<le> length xs"
proof (induction ep xs rule: zwjSequence.induct)
  case (1 ep xs)
  show ?case
  proof (cases xs)
    case Nil
    then show ?thesis by (simp add: zwjSequence.simps)
  next
    case (Cons u r)
    show ?thesis
    proof (cases "u = 0x200D")
      case False
      with Cons show ?thesis by (simp add: zwjSequence.simps)
    next
      case True
      show ?thesis
      proof (cases "codePointAt r")
        case None
        with Cons True show ?thesis by (simp add: zwjSequence.simps)
      next
        case (Some cn)
        obtain c n where cn: "cn = (c, n)" by (cases cn)
        have n: "0 < n \<and> n \<le> length r"
          using Some cn codePointAt_units by blast
        have o: "optFE0F (drop n r) \<le> length r - n"
          using optFE0F_le [of "drop n r"] by simp
        show ?thesis
        proof (cases "ep c")
          case False
          with Cons True Some cn show ?thesis by (simp add: zwjSequence.simps)
        next
          case epc: True
          have "zwjSequence ep (drop (n + optFE0F (drop n r)) r)
                  \<le> length (drop (n + optFE0F (drop n r)) r)"
            using "1.IH" Cons True Some cn epc by simp
          moreover have "zwjSequence ep xs = 1 + n + optFE0F (drop n r)
                  + zwjSequence ep (drop (n + optFE0F (drop n r)) r)"
            using Cons True Some cn epc by (subst zwjSequence.simps) simp
          ultimately show ?thesis
            using n o Cons by auto
        qed
      qed
    qed
  qed
qed

lemma simpleTail_le: "simpleTail ep xs \<le> length xs"
proof (induction ep xs rule: simpleTail.induct)
  case (1 ep xs)
  show ?case
  proof (cases xs)
    case Nil
    then show ?thesis by (simp add: simpleTail.simps)
  next
    case (Cons u r)
    show ?thesis
    proof (cases "u = 0xFE0F")
      case True
      have "simpleTail ep xs = 1 + simpleTail ep r"
        using Cons True by (subst simpleTail.simps) simp
      with "1.IH"(1) Cons True show ?thesis by simp
    next
      case nfe: False
      show ?thesis
      proof (cases "u = 0x200D")
        case False
        with nfe Cons show ?thesis by (simp add: simpleTail.simps)
      next
        case True
        show ?thesis
        proof (cases "codePointAt r")
          case None
          with Cons True nfe show ?thesis by (simp add: simpleTail.simps)
        next
          case (Some cn)
          obtain c n where cn: "cn = (c, n)" by (cases cn)
          have n: "0 < n \<and> n \<le> length r"
            using Some cn codePointAt_units by blast
          show ?thesis
          proof (cases "ep c")
            case False
            with Cons True nfe Some cn show ?thesis by (simp add: simpleTail.simps)
          next
            case epc: True
            have "simpleTail ep (drop n r) \<le> length (drop n r)"
              using "1.IH"(2) Cons True nfe Some cn epc by simp
            moreover have "simpleTail ep xs = 1 + n + simpleTail ep (drop n r)"
              using Cons True nfe Some cn epc by (subst simpleTail.simps) simp
            ultimately show ?thesis
              using n Cons by auto
          qed
        qed
      qed
    qed
  qed
qed

lemma EMOJI_REGEX_units:
  assumes "EMOJI_REGEX ep xs = Some n"
  shows "0 < n \<and> n \<le> length xs"
proof (cases "codePointAt xs")
  case None
  with assms show ?thesis by (simp add: EMOJI_REGEX_def)
next
  case (Some cm)
  obtain c m where cm: "cm = (c, m)" by (cases cm)
  have m: "0 < m \<and> m \<le> length xs"
    using Some cm codePointAt_units by blast
  show ?thesis
  proof (cases "ep c")
    case True
    have o: "optFE0F (drop m xs) \<le> length xs - m"
      using optFE0F_le [of "drop m xs"] by simp
    have "zwjSequence ep (drop (m + optFE0F (drop m xs)) xs)
            \<le> length xs - (m + optFE0F (drop m xs))"
      using zwjSequence_le [of ep "drop (m + optFE0F (drop m xs)) xs"] by simp
    with assms Some cm True m o show ?thesis
      by (auto simp: EMOJI_REGEX_def)
  next
    case False
    show ?thesis
    proof (cases "codePointAt (drop m xs)")
      case None
      with assms Some cm False show ?thesis
        by (simp add: EMOJI_REGEX_def split: if_splits)
    next
      case inner: (Some cm2)
      obtain c2 m2 where cm2: "cm2 = (c2, m2)" by (cases cm2)
      have "0 < m2 \<and> m2 \<le> length (drop m xs)"
        using inner cm2 codePointAt_units by blast
      with assms Some cm False inner cm2 m show ?thesis
        by (auto simp: EMOJI_REGEX_def split: if_splits)
    qed
  qed
qed

lemma SIMPLE_EMOJI_REGEX_units:
  assumes "SIMPLE_EMOJI_REGEX ep xs = Some n"
  shows "0 < n \<and> n \<le> length xs"
proof (cases "codePointAt xs")
  case None
  with assms show ?thesis by (simp add: SIMPLE_EMOJI_REGEX_def)
next
  case (Some cm)
  obtain c m where cm: "cm = (c, m)" by (cases cm)
  have m: "0 < m \<and> m \<le> length xs"
    using Some cm codePointAt_units by blast
  have "simpleTail ep (drop m xs) \<le> length xs - m"
    using simpleTail_le [of ep "drop m xs"] by simp
  with assms Some cm m show ?thesis
    by (auto simp: SIMPLE_EMOJI_REGEX_def split: if_splits)
qed

lemma execFrom_bounds:
  "(\<And>xs n. re xs = Some n \<Longrightarrow> 0 < n \<and> n \<le> length xs) \<Longrightarrow>
   execFrom re s i = Some (index, e) \<Longrightarrow> i \<le> index \<and> index < e \<and> e \<le> length s"
proof (induction re s i rule: execFrom.induct)
  case (1 re s i)
  note units = "1.prems"(1)
  note found = "1.prems"(2)
  show ?case
  proof (cases "length s < i")
    case True
    with found show ?thesis by (simp add: execFrom.simps)
  next
    case False
    show ?thesis
    proof (cases "re (drop i s)")
      case None
      with False found
      have "execFrom re s (advanceStringIndex s i) = Some (index, e)"
        by (simp add: execFrom.simps [of re s i])
      with "1.IH" [OF False None units]
      have "advanceStringIndex s i \<le> index \<and> index < e \<and> e \<le> length s"
        by blast
      with advanceStringIndex_gt [of i s] show ?thesis by simp
    next
      case (Some n)
      with False found have "index = i" "e = i + n"
        by (simp_all add: execFrom.simps [of re s i])
      moreover have "0 < n \<and> n \<le> length (drop i s)"
        using units [OF Some] .
      ultimately show ?thesis using False by auto
    qed
  qed
qed

lemma execFrom_EMOJI_bounds:
  "execFrom (EMOJI_REGEX ep) s i = Some (index, e) \<Longrightarrow>
   i \<le> index \<and> index < e \<and> e \<le> length s"
  by (rule execFrom_bounds [of "EMOJI_REGEX ep"]) (auto dest: EMOJI_REGEX_units)

lemma execFrom_SIMPLE_bounds:
  "execFrom (SIMPLE_EMOJI_REGEX ep) s i = Some (index, e) \<Longrightarrow>
   i \<le> index \<and> index < e \<and> e \<le> length s"
  by (rule execFrom_bounds [of "SIMPLE_EMOJI_REGEX ep"]) (auto dest: SIMPLE_EMOJI_REGEX_units)

section \<open>visualSliceHelper\<close>

text \<open>
  The \<open>while\<close> loop of visualSliceHelper that cuts the text into segments. The local
  \<open>lastIndex\<close> and \<open>SIMPLE_EMOJI_REGEX.lastIndex\<close> are both 0 at the start and both the end
  of the match after a turn, so one value stands for the two. The result is the segments
  and the local \<open>lastIndex\<close> when \<open>exec\<close> returns \<open>null\<close>.
\<close>

function segmentLoop ::
  "(nat \<Rightarrow> bool) \<Rightarrow> jsstring \<Rightarrow> nat \<Rightarrow> jsstring list \<Rightarrow> jsstring list \<times> nat" where
  "segmentLoop ep text lastIndex segments =
     (case execFrom (SIMPLE_EMOJI_REGEX ep) text lastIndex of
        None \<Rightarrow> (segments, lastIndex)
      | Some (index, e) \<Rightarrow>
          segmentLoop ep text e
            (segments
             @ (if lastIndex < index then codePointStrings (slice_str text lastIndex index) else [])
             @ [slice_str text index e]))"
  by pat_completeness auto
termination
  apply (relation "measure (\<lambda>(ep, text, lastIndex, segments). length text - lastIndex)")
   apply simp
  apply (auto dest!: execFrom_SIMPLE_bounds)
  done

declare segmentLoop.simps [simp del]

text \<open>
  \<open>visualSliceHelper(text, start, end)\<close>; the end is \<open>None\<close> when the argument is omitted
  or \<open>undefined\<close>. The indices are integers.
\<close>

definition visualSegments :: "(nat \<Rightarrow> bool) \<Rightarrow> jsstring \<Rightarrow> jsstring list" where
  "visualSegments ep text =
     (let (segments, lastIndex) = segmentLoop ep text 0 []
      in segments
         @ (if lastIndex < length text then codePointStrings (drop lastIndex text) else []))"

definition visualSliceHelper ::
  "(nat \<Rightarrow> bool) \<Rightarrow> jsstring \<Rightarrow> int \<Rightarrow> int option \<Rightarrow> jsstring" where
  "visualSliceHelper ep text start endArg =
     (if text = [] then []
      else
        let segments = visualSegments ep text;
            totalLength = int (length segments)
        in if totalLength \<le> start then []
           else
             let normalizedStart = (if start < 0 then max 0 (totalLength + start) else start);
                 normalizedEnd =
                   (case endArg of
                      None \<Rightarrow> totalLength
                    | Some e \<Rightarrow> if e < 0 then max 0 (totalLength + e) else e);
                 normalizedStart = max 0 (min normalizedStart totalLength);
                 normalizedEnd = max 0 (min normalizedEnd totalLength)
             in if normalizedEnd \<le> normalizedStart then []
                else concat (take (nat normalizedEnd - nat normalizedStart)
                               (drop (nat normalizedStart) segments)))"

section \<open>The character sets and the normalization cache\<close>

definition SHORT_CHARACTERS :: "jsstring list" where
  "SHORT_CHARACTERS =
     map (\<lambda>u. [u])
       [0xED, 0x1EC9, 0x1ECB, 0x1EC9, 0xEC, 0x69, 0x74, 0x66, 0x72, 0x6C,
        0x2E, 0x2C, 0x7C, 0x3A, 0x3B, 0x27, 0x22, 0x21]"

definition LONG_CHARACTERS :: "jsstring list" where
  "LONG_CHARACTERS = map (\<lambda>u. [u]) [0x6D, 0x77, 0x4D, 0x57]"

text \<open>
  \<open>normalizeCache\<close> is a \<open>Map\<close> from the raw text to its normal form, kept as the list of
  its entries. \<open>String.prototype.normalize("NFC")\<close> belongs to the JavaScript engine; it is
  the parameter \<open>nfc\<close>.
\<close>

type_synonym normalizeCache = "(jsstring \<times> jsstring) list"

definition getNormalizedString ::
  "(jsstring \<Rightarrow> jsstring) \<Rightarrow> jsstring \<Rightarrow> normalizeCache \<Rightarrow> jsstring \<times> normalizeCache" where
  "getNormalizedString nfc text cache =
     (case map_of cache text of
        Some cached \<Rightarrow> (cached, cache)
      | None \<Rightarrow>
          let normalized = nfc text;
              cache1 = (if 1000 < length cache then [] else cache)
          in (normalized, (text, normalized) # cache1))"

text \<open>
  The states the cache can be in: it starts empty and only getNormalizedString writes
  to it.
\<close>

inductive reachableCache :: "(jsstring \<Rightarrow> jsstring) \<Rightarrow> normalizeCache \<Rightarrow> bool"
  for nfc :: "jsstring \<Rightarrow> jsstring" where
  initial: "reachableCache nfc []"
| call: "reachableCache nfc cache \<Longrightarrow>
         reachableCache nfc (snd (getNormalizedString nfc text cache))"

section \<open>countShortCharactersHelper and getVisualLengthHelper\<close>

definition allShortCharactersOf :: "jsstring list \<Rightarrow> jsstring list" where
  "allShortCharactersOf customShortCharacters =
     (if 0 < length customShortCharacters then customShortCharacters @ SHORT_CHARACTERS
      else SHORT_CHARACTERS)"

definition allLongCharactersOf :: "jsstring list \<Rightarrow> jsstring list" where
  "allLongCharactersOf customLongCharacters =
     (if 0 < length customLongCharacters then customLongCharacters @ LONG_CHARACTERS
      else LONG_CHARACTERS)"

definition countShortCharactersHelper :: "jsstring \<Rightarrow> jsstring list \<Rightarrow> nat" where
  "countShortCharactersHelper input customShortCharacters =
     length (filter (\<lambda>char. char \<in> set (allShortCharactersOf customShortCharacters))
               (codePointStrings input))"

record VisualProfile =
  visualLength :: nat
  shortCharCount :: nat
  emojiCount :: nat
  longCharCount :: nat

text \<open>
  The \<open>while\<close> loop that counts visual units: (visualLength, emojiCount, lastIndex) when
  \<open>exec\<close> returns \<open>null\<close>. The local \<open>lastIndex\<close> and \<open>EMOJI_REGEX.lastIndex\<close> agree at
  each \<open>exec\<close>.
\<close>

function visualLengthLoop ::
  "(nat \<Rightarrow> bool) \<Rightarrow> jsstring \<Rightarrow> nat \<Rightarrow> nat \<Rightarrow> nat \<Rightarrow> nat \<times> nat \<times> nat" where
  "visualLengthLoop ep normalized lastIndex vl ec =
     (case execFrom (EMOJI_REGEX ep) normalized lastIndex of
        None \<Rightarrow> (vl, ec, lastIndex)
      | Some (index, e) \<Rightarrow>
          visualLengthLoop ep normalized e
            ((if lastIndex < index then vl + (index - lastIndex) else vl) + 1) (ec + 1))"
  by pat_completeness auto
termination
  apply (relation "measure (\<lambda>(ep, normalized, lastIndex, vl, ec). length normalized - lastIndex)")
   apply simp
  apply (auto dest!: execFrom_EMOJI_bounds)
  done

declare visualLengthLoop.simps [simp del]

definition getVisualLengthHelper ::
  "(jsstring \<Rightarrow> jsstring) \<Rightarrow> (nat \<Rightarrow> bool) \<Rightarrow> jsstring \<Rightarrow> jsstring list \<Rightarrow> jsstring list \<Rightarrow>
   normalizeCache \<Rightarrow> VisualProfile \<times> normalizeCache" where
  "getVisualLengthHelper nfc ep text customShortCharacters customLongCharacters cache =
     (if text = []
      then (\<lparr>visualLength = 0, shortCharCount = 0, emojiCount = 0, longCharCount = 0\<rparr>, cache)
      else
        let (normalized, cache1) = getNormalizedString nfc text cache;
            (vl, ec, lastIndex) = visualLengthLoop ep normalized 0 0 0;
            vl = (if lastIndex < length normalized then vl + (length normalized - lastIndex)
                  else vl);
            sc = countShortCharactersHelper text customShortCharacters;
            lc = length (filter
                   (\<lambda>char. (0 < length customLongCharacters \<and> char \<in> set customLongCharacters)
                            \<or> char \<in> set LONG_CHARACTERS)
                   (codePointStrings text))
        in (\<lparr>visualLength = vl, shortCharCount = sc, emojiCount = ec, longCharCount = lc\<rparr>,
            cache1))"

section \<open>calculateSlicePositionHelper\<close>

text \<open>Numbers that are widths are reals: the arithmetic of the code, without rounding.\<close>

definition getCharWidth :: "real \<Rightarrow> jsstring list \<Rightarrow> jsstring list \<Rightarrow> jsstring \<Rightarrow> real" where
  "getCharWidth charWidth allShortCharacters allLongCharacters char =
     (if char = [0x20] then charWidth * 0.5
      else if char \<in> set allShortCharacters then charWidth * 0.5
      else if char \<in> set allLongCharacters then charWidth * 1.5
      else charWidth)"

text \<open>
  The loop that marks the visual positions of the emoji: (emojiPositions, visualPos,
  lastIndex) when \<open>exec\<close> returns \<open>null\<close>. Its inner loop steps \<open>visualPos\<close> and
  \<open>lastIndex\<close> together up to \<open>match.index\<close>.
\<close>

function markEmojiLoop ::
  "(nat \<Rightarrow> bool) \<Rightarrow> jsstring \<Rightarrow> nat \<Rightarrow> nat \<Rightarrow> nat set \<Rightarrow> nat set \<times> nat \<times> nat" where
  "markEmojiLoop ep normalized lastIndex visualPos emojiPositions =
     (case execFrom (EMOJI_REGEX ep) normalized lastIndex of
        None \<Rightarrow> (emojiPositions, visualPos, lastIndex)
      | Some (index, e) \<Rightarrow>
          let visualPos1 = (if lastIndex < index then visualPos + (index - lastIndex)
                            else visualPos)
          in markEmojiLoop ep normalized e (visualPos1 + 1) (insert visualPos1 emojiPositions))"
  by pat_completeness auto
termination
  apply (relation
      "measure (\<lambda>(ep, normalized, lastIndex, visualPos, emojiPositions).
                  length normalized - lastIndex)")
   apply simp
  apply (auto dest!: execFrom_EMOJI_bounds)
  done

declare markEmojiLoop.simps [simp del]

text \<open>
  Monospaced branch, the search for the character before the cut (position \<open>t = i - 1\<close>):
  the value of \<open>charIndex\<close> when the loop ends. \<open>EMOJI_REGEX.lastIndex\<close> is reset before
  it. On entry of each turn \<open>visualIndex \<le> t\<close>, so \<open>t - visualIndex\<close> is not negative.
  There is no loop over the characters after the last emoji.
\<close>

function monoCharIndexLoop ::
  "(nat \<Rightarrow> bool) \<Rightarrow> jsstring \<Rightarrow> nat \<Rightarrow> nat \<Rightarrow> nat \<Rightarrow> nat \<Rightarrow> nat" where
  "monoCharIndexLoop ep normalized t lastIndex visualIndex charIndex =
     (case execFrom (EMOJI_REGEX ep) normalized lastIndex of
        None \<Rightarrow> charIndex
      | Some (index, e) \<Rightarrow>
          if lastIndex < index \<and> t < visualIndex + (index - lastIndex)
          then lastIndex + (t - visualIndex)
          else
            let visualIndex1 = (if lastIndex < index then visualIndex + (index - lastIndex)
                                else visualIndex)
            in if visualIndex1 = t then index
               else monoCharIndexLoop ep normalized t e (visualIndex1 + 1) e)"
  by pat_completeness auto
termination
  apply (relation
      "measure (\<lambda>(ep, normalized, t, lastIndex, visualIndex, charIndex).
                  length normalized - lastIndex)")
   apply simp
  apply (auto dest!: execFrom_EMOJI_bounds)
  done

declare monoCharIndexLoop.simps [simp del]

text \<open>
  Monospaced branch, the \<open>for\<close> loop from the end: \<open>n\<close> is \<open>i + 1\<close>, the number of
  positions not yet visited.
\<close>

fun monoScan ::
  "(nat \<Rightarrow> bool) \<Rightarrow> jsstring \<Rightarrow> real \<Rightarrow> real \<Rightarrow> nat set \<Rightarrow> nat \<Rightarrow> nat \<Rightarrow> real \<Rightarrow> nat \<Rightarrow> int" where
  "monoScan ep normalized charWidth targetWidth emojiPositions totalLength 0
     accumulatedWidth slicePosition = - int totalLength"
| "monoScan ep normalized charWidth targetWidth emojiPositions totalLength (Suc i)
     accumulatedWidth slicePosition =
     (let accumulatedWidth1 =
            accumulatedWidth + (if i \<in> emojiPositions then charWidth * 2 else charWidth);
          slicePosition1 = slicePosition + 1
      in if targetWidth \<le> accumulatedWidth1
         then (if 0 < i \<and> i - 1 \<notin> emojiPositions
               then (let charIndex = monoCharIndexLoop ep normalized (i - 1) 0 0 0
                     in if charIndex < length normalized \<and> normalized ! charIndex = 0x20
                        then - int (slicePosition1 + 1)
                        else - int slicePosition1)
               else - int slicePosition1)
         else monoScan ep normalized charWidth targetWidth emojiPositions totalLength i
                accumulatedWidth1 slicePosition1)"

text \<open>
  Proportional branch. The inner loop over regular characters up to \<open>limit\<close>:
  (lastIndex, currentVisualPos, charIndex) when it ends.
\<close>

function regularScan :: "nat \<Rightarrow> nat \<Rightarrow> nat \<Rightarrow> nat \<Rightarrow> nat \<Rightarrow> nat \<times> nat \<times> nat" where
  "regularScan limit i lastIndex currentVisualPos charIndex =
     (if lastIndex < limit \<and> currentVisualPos \<le> i
      then (if currentVisualPos = i then (lastIndex, currentVisualPos, lastIndex)
            else regularScan limit i (lastIndex + 1) (currentVisualPos + 1) charIndex)
      else (lastIndex, currentVisualPos, charIndex))"
  by pat_completeness auto
termination
  by (relation "measure (\<lambda>(limit, i, lastIndex, currentVisualPos, charIndex). limit - lastIndex)")
    auto

declare regularScan.simps [simp del]

text \<open>
  The search for the character at visual position \<open>i\<close> inside the \<open>for\<close> loop. The locals
  start at 0, but \<open>EMOJI_REGEX.lastIndex\<close> is not reset here: \<open>exec\<close> goes on from the value
  \<open>regexLastIndex\<close> the previous search left. The result is (lastIndex, currentVisualPos,
  charIndex, EMOJI_REGEX.lastIndex) when the loop ends: a \<open>break\<close> leaves the expression's
  \<open>lastIndex\<close> at the end of the match, \<open>null\<close> resets it to 0.
\<close>

function widthCharLoop ::
  "(nat \<Rightarrow> bool) \<Rightarrow> jsstring \<Rightarrow> nat \<Rightarrow> nat \<Rightarrow> nat \<Rightarrow> nat \<Rightarrow> nat \<Rightarrow> nat \<times> nat \<times> nat \<times> nat" where
  "widthCharLoop ep normalized i lastIndex currentVisualPos charIndex regexLastIndex =
     (case execFrom (EMOJI_REGEX ep) normalized regexLastIndex of
        None \<Rightarrow> (lastIndex, currentVisualPos, charIndex, 0)
      | Some (index, e) \<Rightarrow>
          (case regularScan index i lastIndex currentVisualPos charIndex of
             (lastIndex1, currentVisualPos1, charIndex1) \<Rightarrow>
               if currentVisualPos1 = i then (lastIndex1, currentVisualPos1, lastIndex1, e)
               else widthCharLoop ep normalized i e (currentVisualPos1 + 1) charIndex1 e))"
  by pat_completeness auto
termination
  apply (relation
      "measure (\<lambda>(ep, normalized, i, lastIndex, currentVisualPos, charIndex, regexLastIndex).
                  length normalized - regexLastIndex)")
   apply simp
  apply (auto dest!: execFrom_EMOJI_bounds)
  done

declare widthCharLoop.simps [simp del]

definition widthCharIndex :: "(nat \<Rightarrow> bool) \<Rightarrow> jsstring \<Rightarrow> nat \<Rightarrow> nat \<Rightarrow> nat \<times> nat" where
  "widthCharIndex ep normalized i regexLastIndex =
     (case widthCharLoop ep normalized i 0 0 0 regexLastIndex of
        (lastIndex, currentVisualPos, charIndex, regexLastIndex1) \<Rightarrow>
          (case regularScan (length normalized) i lastIndex currentVisualPos charIndex of
             (lastIndex2, currentVisualPos2, charIndex2) \<Rightarrow> (charIndex2, regexLastIndex1)))"

text \<open>
  The search for the character before the cut (position \<open>t = i - 1\<close>), after
  \<open>EMOJI_REGEX.lastIndex = 0\<close>; here the local \<open>lastIndex\<close> and the expression's agree.
\<close>

function spaceCharLoop ::
  "(nat \<Rightarrow> bool) \<Rightarrow> jsstring \<Rightarrow> nat \<Rightarrow> nat \<Rightarrow> nat \<Rightarrow> nat \<Rightarrow> nat \<times> nat \<times> nat" where
  "spaceCharLoop ep normalized t lastIndex currentVisualPos charIndex =
     (case execFrom (EMOJI_REGEX ep) normalized lastIndex of
        None \<Rightarrow> (lastIndex, currentVisualPos, charIndex)
      | Some (index, e) \<Rightarrow>
          (case regularScan index t lastIndex currentVisualPos charIndex of
             (lastIndex1, currentVisualPos1, charIndex1) \<Rightarrow>
               if currentVisualPos1 = t then (lastIndex1, currentVisualPos1, charIndex1)
               else spaceCharLoop ep normalized t e (currentVisualPos1 + 1) charIndex1))"
  by pat_completeness auto
termination
  apply (relation
      "measure (\<lambda>(ep, normalized, t, lastIndex, currentVisualPos, charIndex).
                  length normalized - lastIndex)")
   apply simp
  apply (auto dest!: execFrom_EMOJI_bounds)
  done

declare spaceCharLoop.simps [simp del]

definition spaceCharIndex :: "(nat \<Rightarrow> bool) \<Rightarrow> jsstring \<Rightarrow> nat \<Rightarrow> nat" where
  "spaceCharIndex ep normalized t =
     (case spaceCharLoop ep normalized t 0 0 0 of
        (lastIndex, currentVisualPos, charIndex) \<Rightarrow>
          (case regularScan (length normalized) t lastIndex currentVisualPos charIndex of
             (lastIndex2, currentVisualPos2, charIndex2) \<Rightarrow> charIndex2))"

text \<open>
  Proportional branch, the \<open>for\<close> loop from the end: \<open>n\<close> is \<open>i + 1\<close>, and
  \<open>regexLastIndex\<close> is \<open>EMOJI_REGEX.lastIndex\<close> as the previous turn left it.
  \<open>normalized[charIndex] || ""\<close> is the empty string out of range.
\<close>

fun propScan ::
  "(nat \<Rightarrow> bool) \<Rightarrow> jsstring \<Rightarrow> real \<Rightarrow> real \<Rightarrow> jsstring list \<Rightarrow> jsstring list \<Rightarrow> nat set \<Rightarrow> nat \<Rightarrow>
   nat \<Rightarrow> real \<Rightarrow> nat \<Rightarrow> nat \<Rightarrow> int" where
  "propScan ep normalized charWidth targetWidth allShort allLong emojiPositions
     totalVisualLength 0 accumulatedWidth slicePosition regexLastIndex =
     - int totalVisualLength"
| "propScan ep normalized charWidth targetWidth allShort allLong emojiPositions
     totalVisualLength (Suc i) accumulatedWidth slicePosition regexLastIndex =
     (let (width, regexLastIndex1) =
            (if i \<in> emojiPositions then (charWidth * 2, regexLastIndex)
             else (case widthCharIndex ep normalized i regexLastIndex of
                     (charIndex, r) \<Rightarrow>
                       (getCharWidth charWidth allShort allLong
                          (case charAt normalized charIndex of None \<Rightarrow> [] | Some c \<Rightarrow> c),
                        r)));
          accumulatedWidth1 = accumulatedWidth + width;
          slicePosition1 = slicePosition + 1
      in if targetWidth \<le> accumulatedWidth1
         then (if 0 < i \<and> i - 1 \<notin> emojiPositions
               then (if charAt normalized (spaceCharIndex ep normalized (i - 1)) = Some [0x20]
                     then - int (slicePosition1 + 1)
                     else - int slicePosition1)
               else - int slicePosition1)
         else propScan ep normalized charWidth targetWidth allShort allLong emojiPositions
                totalVisualLength i accumulatedWidth1 slicePosition1 regexLastIndex1)"

text \<open>
  calculateSlicePositionHelper on the normalized string. In the monospaced branch the first
  pass counts the visual units and the second marks the emoji; the proportional branch does
  both in one pass.
\<close>

definition slicePositionOf ::
  "(nat \<Rightarrow> bool) \<Rightarrow> jsstring \<Rightarrow> real \<Rightarrow> real \<Rightarrow> bool \<Rightarrow> jsstring list \<Rightarrow> jsstring list \<Rightarrow> int" where
  "slicePositionOf ep normalized charWidth targetWidth isMonospaced customShortCharacters
     customLongCharacters =
     (if isMonospaced
      then
        (case visualLengthLoop ep normalized 0 0 0 of
           (vl, ec, lastIndex) \<Rightarrow>
             let totalLength = (if lastIndex < length normalized
                                then vl + (length normalized - lastIndex) else vl)
             in (case markEmojiLoop ep normalized 0 0 {} of
                   (emojiPositions, visualPos, lastIndex2) \<Rightarrow>
                     monoScan ep normalized charWidth targetWidth emojiPositions totalLength
                       totalLength 0 0))
      else
        (case markEmojiLoop ep normalized 0 0 {} of
           (emojiPositions, visualPos, lastIndex) \<Rightarrow>
             let totalVisualLength = visualPos + (length normalized - lastIndex)
             in propScan ep normalized charWidth targetWidth
                  (allShortCharactersOf customShortCharacters)
                  (allLongCharactersOf customLongCharacters)
                  emojiPositions totalVisualLength totalVisualLength 0 0 0))"

definition calculateSlicePositionHelper ::
  "(jsstring \<Rightarrow> jsstring) \<Rightarrow> (nat \<Rightarrow> bool) \<Rightarrow> jsstring \<Rightarrow> real \<Rightarrow> real \<Rightarrow> bool \<Rightarrow> jsstring list \<Rightarrow>
   jsstring list \<Rightarrow> normalizeCache \<Rightarrow> int \<times> normalizeCache" where
  "calculateSlicePositionHelper nfc ep text charWidth targetWidth isMonospaced
     customShortCharacters customLongCharacters cache =
     (if text = [] \<or> targetWidth \<le> 0 then (0, cache)
      else
        let (normalized, cache1) = getNormalizedString nfc text cache
        in (slicePositionOf ep normalized charWidth targetWidth isMonospaced
              customShortCharacters customLongCharacters,
            cache1))"

section \<open>calculateStringWidthHelper and balanceDiffHelper\<close>

text \<open>Monospaced branch: the total width when \<open>exec\<close> returns \<open>null\<close>, and \<open>lastIndex\<close>.\<close>

function monoWidthLoop ::
  "(nat \<Rightarrow> bool) \<Rightarrow> jsstring \<Rightarrow> real \<Rightarrow> nat \<Rightarrow> real \<Rightarrow> real \<times> nat" where
  "monoWidthLoop ep normalized charWidth lastIndex totalWidth =
     (case execFrom (EMOJI_REGEX ep) normalized lastIndex of
        None \<Rightarrow> (totalWidth, lastIndex)
      | Some (index, e) \<Rightarrow>
          monoWidthLoop ep normalized charWidth e
            ((if lastIndex < index then totalWidth + real (index - lastIndex) * charWidth
              else totalWidth)
             + charWidth * 2))"
  by pat_completeness auto
termination
  apply (relation
      "measure (\<lambda>(ep, normalized, charWidth, lastIndex, totalWidth).
                  length normalized - lastIndex)")
   apply simp
  apply (auto dest!: execFrom_EMOJI_bounds)
  done

declare monoWidthLoop.simps [simp del]

text \<open>
  Proportional branch: \<open>for (let i = a; i < b; i++) totalWidth += getCharWidth(normalized[i])\<close>
  adds the widths of the code units from \<open>a\<close> up to \<open>b\<close>, in order.
\<close>

definition addCharWidths ::
  "real \<Rightarrow> jsstring list \<Rightarrow> jsstring list \<Rightarrow> jsstring \<Rightarrow> nat \<Rightarrow> nat \<Rightarrow> real \<Rightarrow> real" where
  "addCharWidths charWidth allShort allLong normalized a b totalWidth =
     foldl (\<lambda>w u. w + getCharWidth charWidth allShort allLong [u]) totalWidth
       (slice_str normalized a b)"

function propWidthLoop ::
  "(nat \<Rightarrow> bool) \<Rightarrow> jsstring \<Rightarrow> real \<Rightarrow> jsstring list \<Rightarrow> jsstring list \<Rightarrow> nat \<Rightarrow> real \<Rightarrow> real \<times> nat" where
  "propWidthLoop ep normalized charWidth allShort allLong lastIndex totalWidth =
     (case execFrom (EMOJI_REGEX ep) normalized lastIndex of
        None \<Rightarrow> (totalWidth, lastIndex)
      | Some (index, e) \<Rightarrow>
          propWidthLoop ep normalized charWidth allShort allLong e
            ((if lastIndex < index
              then addCharWidths charWidth allShort allLong normalized lastIndex index totalWidth
              else totalWidth)
             + charWidth * 2))"
  by pat_completeness auto
termination
  apply (relation
      "measure (\<lambda>(ep, normalized, charWidth, allShort, allLong, lastIndex, totalWidth).
                  length normalized - lastIndex)")
   apply simp
  apply (auto dest!: execFrom_EMOJI_bounds)
  done

declare propWidthLoop.simps [simp del]

definition calculateStringWidthHelper ::
  "(jsstring \<Rightarrow> jsstring) \<Rightarrow> (nat \<Rightarrow> bool) \<Rightarrow> jsstring \<Rightarrow> real \<Rightarrow> bool \<Rightarrow> jsstring list \<Rightarrow>
   jsstring list \<Rightarrow> normalizeCache \<Rightarrow> real \<times> normalizeCache" where
  "calculateStringWidthHelper nfc ep text charWidth isMonospaced customShortCharacters
     customLongCharacters cache =
     (if text = [] then (0, cache)
      else
        let (normalized, cache1) = getNormalizedString nfc text cache
        in if isMonospaced
           then (case monoWidthLoop ep normalized charWidth 0 0 of
                   (totalWidth, lastIndex) \<Rightarrow>
                     (if lastIndex < length normalized
                      then totalWidth + real (length normalized - lastIndex) * charWidth
                      else totalWidth,
                      cache1))
           else (case propWidthLoop ep normalized charWidth
                        (allShortCharactersOf customShortCharacters)
                        (allLongCharactersOf customLongCharacters) 0 0 of
                   (totalWidth, lastIndex) \<Rightarrow>
                     (if lastIndex < length normalized
                      then addCharWidths charWidth
                             (allShortCharactersOf customShortCharacters)
                             (allLongCharactersOf customLongCharacters)
                             normalized lastIndex (length normalized) totalWidth
                      else totalWidth,
                      cache1)))"

definition balanceDiffHelper :: "nat \<Rightarrow> nat \<Rightarrow> nat \<Rightarrow> real" where
  "balanceDiffHelper numOfEmojis numOfShortCharacters numOfLongCharacters =
     real numOfEmojis + 0.5 * real numOfLongCharacters - 0.5 * real numOfShortCharacters"

section \<open>The component: calculateTruncatedText\<close>

text \<open>
  The file rnShowMoreText.tsx is modelled in its latest state, the one that imports the
  five helpers above (as helper.ts is in its latest state, the one that exports them).
  \<open>numberOfLines\<close> is a count of lines, a natural number.
\<close>

record TextLayoutLine =
  line_text :: jsstring
  line_width :: real

record Props =
  numberOfLines :: nat
  children :: jsstring
  readMoreText :: "jsstring option"
  compensationSpaceAndroid :: real
  isMonospaced :: bool
  shortWidthCharacters :: "jsstring list"
  longWidthCharacters :: "jsstring list"

text \<open>
  The state the computation reads and writes: the two \<open>useState\<close> values, the refs, and
  the cache of the helper module.
\<close>

record Component =
  isNeedReadMore :: bool
  renderTrigger :: bool
  isShowingFullTextRef :: bool
  fullTextRef :: jsstring
  truncatedTextRef :: jsstring
  containerWidthRef :: real
  textLinesRef :: "TextLayoutLine list"
  isCalculationCompleteRef :: bool
  hasPropsChangedRef :: bool
  oldChildren :: jsstring
  moduleCache :: normalizeCache

datatype error = TypeError

text \<open>\<open>`... ${(readMoreText || "Show more").trim()}`\<close>\<close>

definition readMoreTextContent :: "Props \<Rightarrow> jsstring" where
  "readMoreTextContent p =
     utf16 ''... ''
     @ trim (case readMoreText p of
               None \<Rightarrow> utf16 ''Show more''
             | Some t \<Rightarrow> if t = [] then utf16 ''Show more'' else t)"

text \<open>
  \<open>textLinesRef.current[numberOfLines - 1]\<close>, read where there are more than
  \<open>numberOfLines\<close> lines: \<open>undefined\<close> when \<open>numberOfLines\<close> is 0.
\<close>

definition lastRowOf :: "nat \<Rightarrow> TextLayoutLine list \<Rightarrow> TextLayoutLine option" where
  "lastRowOf n lines = (if n = 0 \<or> length lines < n then None else Some (lines ! (n - 1)))"

definition lastRowForWidthCalcOf :: "TextLayoutLine option \<Rightarrow> jsstring" where
  "lastRowForWidthCalcOf lastRow =
     (case lastRow of None \<Rightarrow> [] | Some r \<Rightarrow> stripTrailingNewline (line_text r))"

text \<open>
  The estimate \<open>avgCharWidth\<close>: the average over the last row, then the correction by the
  balance. \<open>w\<close> is \<open>lastRow?.width || 0\<close>.
\<close>

definition avgCharWidthOf :: "real \<Rightarrow> VisualProfile \<Rightarrow> real" where
  "avgCharWidthOf w lastRowVisualLength =
     (let avgCharWidth =
            (if 0 < visualLength lastRowVisualLength
             then w / real (visualLength lastRowVisualLength) else 0);
          balance = balanceDiffHelper (emojiCount lastRowVisualLength)
                      (shortCharCount lastRowVisualLength) (longCharCount lastRowVisualLength)
      in if balance = 0 then avgCharWidth
         else avgCharWidth *
              (if balance < 0
               then 1 + \<bar>balance\<bar> / real (visualLength lastRowVisualLength)
               else 1 - \<bar>balance\<bar> / real (visualLength lastRowVisualLength)))"

text \<open>
  What each consumer of the estimate is given: calculateStringWidthHelper gets
  \<open>avgCharWidth || 1\<close>; calculateSlicePositionHelper gets \<open>avgCharWidth\<close> and the target
  \<open>readMoreTextLength + compensationSpaceAndroid * avgCharWidth\<close>.
\<close>

definition stringWidthCharWidth :: "real \<Rightarrow> real" where
  "stringWidthCharWidth avgCharWidth = (if avgCharWidth = 0 then 1 else avgCharWidth)"

definition slicePositionCharWidth :: "real \<Rightarrow> real" where
  "slicePositionCharWidth avgCharWidth = avgCharWidth"

definition slicePositionTargetWidth :: "real \<Rightarrow> real \<Rightarrow> real \<Rightarrow> real" where
  "slicePositionTargetWidth readMoreTextLength compensation avgCharWidth =
     readMoreTextLength + compensation * avgCharWidth"

definition calculateTruncatedText ::
  "(jsstring \<Rightarrow> jsstring) \<Rightarrow> (nat \<Rightarrow> bool) \<Rightarrow> Props \<Rightarrow> Component \<Rightarrow> error + Component" where
  "calculateTruncatedText nfc ep p s =
     (if length (textLinesRef s) = 0 \<or> containerWidthRef s = 0 then Inr s
      else
        let s1 = s\<lparr>isCalculationCompleteRef := True, hasPropsChangedRef := False\<rparr>;
            lines = textLinesRef s1
        in if numberOfLines p < length lines
           then
             (let visibleText = concat (map line_text (take (numberOfLines p) lines));
                  lastRow = lastRowOf (numberOfLines p) lines;
                  lastRowForWidthCalc = lastRowForWidthCalcOf lastRow;
                  (lastRowVisualLength, cache1) =
                    getVisualLengthHelper nfc ep lastRowForWidthCalc
                      (shortWidthCharacters p) (longWidthCharacters p) (moduleCache s1)
              in case lastRow of
                   None \<Rightarrow> Inl TypeError
                 | Some row \<Rightarrow>
                     let lastLineWidth = line_width row;
                         avgCharWidth = avgCharWidthOf (line_width row) lastRowVisualLength;
                         (readMoreTextLength, cache2) =
                           calculateStringWidthHelper nfc ep (readMoreTextContent p)
                             (stringWidthCharWidth avgCharWidth) (isMonospaced p)
                             (shortWidthCharacters p) (longWidthCharacters p) cache1;
                         targetLastLineWidth = containerWidthRef s1 - readMoreTextLength;
                         visibleText = stripTrailingNewline visibleText;
                         (sliceEndOffset, cache3) =
                           (if lastLineWidth \<le> targetLastLineWidth then (None, cache2)
                            else (case calculateSlicePositionHelper nfc ep lastRowForWidthCalc
                                         (slicePositionCharWidth avgCharWidth)
                                         (slicePositionTargetWidth readMoreTextLength
                                            (compensationSpaceAndroid p) avgCharWidth)
                                         (isMonospaced p) (shortWidthCharacters p)
                                         (longWidthCharacters p) cache2 of
                                    (offset, c) \<Rightarrow> (Some offset, c)));
                         truncated =
                           trim (visualSliceHelper ep visibleText 0
                                   (case sliceEndOffset of
                                      None \<Rightarrow> None
                                    | Some offset \<Rightarrow> if offset = 0 then None else Some offset))
                     in Inr (s1\<lparr>truncatedTextRef := truncated, fullTextRef := truncated,
                                isNeedReadMore := True, moduleCache := cache3,
                                renderTrigger := \<not> renderTrigger s1\<rparr>))
           else Inr (s1\<lparr>isNeedReadMore := False, renderTrigger := \<not> renderTrigger s1\<rparr>))"

text \<open>
  The layout effect that runs when \<open>children\<close>, \<open>style\<close> or \<open>numberOfLines\<close> change, after
  the cleanup of the previous one, and the two layout handlers that start the computation.
\<close>

definition layoutEffect :: "Props \<Rightarrow> Component \<Rightarrow> Component" where
  "layoutEffect p s =
     s\<lparr>isCalculationCompleteRef := False, hasPropsChangedRef := True,
       fullTextRef := children p, textLinesRef := [], isShowingFullTextRef := False,
       oldChildren := children p\<rparr>"

definition onTextLayoutHandler ::
  "(jsstring \<Rightarrow> jsstring) \<Rightarrow> (nat \<Rightarrow> bool) \<Rightarrow> Props \<Rightarrow> TextLayoutLine list \<Rightarrow> Component \<Rightarrow>
   error + Component" where
  "onTextLayoutHandler nfc ep p lines s =
     (if isCalculationCompleteRef s then Inr s
      else calculateTruncatedText nfc ep p (s\<lparr>textLinesRef := lines\<rparr>))"

definition onContainerLayout ::
  "(jsstring \<Rightarrow> jsstring) \<Rightarrow> (nat \<Rightarrow> bool) \<Rightarrow> Props \<Rightarrow> real \<Rightarrow> Component \<Rightarrow> error + Component" where
  "onContainerLayout nfc ep p w s =
     (if isCalculationCompleteRef s then Inr s
      else calculateTruncatedText nfc ep p (s\<lparr>containerWidthRef := w\<rparr>))"

text \<open>
  What is rendered: \<open>isNeedTrigger ? children : fullTextRef.current\<close>, with
  \<open>isNeedTrigger = oldChildren.current !== children\<close>.
\<close>

definition displayText :: "Props \<Rightarrow> Component \<Rightarrow> jsstring" where
  "displayText p s = (if oldChildren s \<noteq> children p then children p else fullTextRef s)"

text \<open>The results of the three helpers that read the cache, when the cache is empty.\<close>

definition profileOf ::
  "(jsstring \<Rightarrow> jsstring) \<Rightarrow> (nat \<Rightarrow> bool) \<Rightarrow> jsstring \<Rightarrow> jsstring list \<Rightarrow> jsstring list \<Rightarrow>
   VisualProfile" where
  "profileOf nfc ep t cs cl = fst (getVisualLengthHelper nfc ep t cs cl [])"

definition stringWidthOf ::
  "(jsstring \<Rightarrow> jsstring) \<Rightarrow> (nat \<Rightarrow> bool) \<Rightarrow> jsstring \<Rightarrow> real \<Rightarrow> bool \<Rightarrow> jsstring list \<Rightarrow>
   jsstring list \<Rightarrow> real" where
  "stringWidthOf nfc ep t w m cs cl = fst (calculateStringWidthHelper nfc ep t w m cs cl [])"

definition slicePosOf ::
  "(jsstring \<Rightarrow> jsstring) \<Rightarrow> (nat \<Rightarrow> bool) \<Rightarrow> jsstring \<Rightarrow> real \<Rightarrow> real \<Rightarrow> bool \<Rightarrow> jsstring list \<Rightarrow>
   jsstring list \<Rightarrow> int" where
  "slicePosOf nfc ep t w tw m cs cl =
     fst (calculateSlicePositionHelper nfc ep t w tw m cs cl [])"

text \<open>The result of the computation with the cache left out.\<close>

definition withoutCache :: "error + Component \<Rightarrow> error + Component" where
  "withoutCache r = (case r of Inl e \<Rightarrow> Inl e | Inr s \<Rightarrow> Inr (s\<lparr>moduleCache := []\<rparr>))"

section \<open>The component of rnShowMoreText.ios.tsx\<close>

text \<open>
  The variant for iOS, rnShowMoreText.ios.tsx, has a calculateTruncatedText of its own, which
  uses no helper: it averages the widths of the characters of the visible lines and cuts
  with \<open>String.prototype.slice\<close>. The first state of rnShowMoreText.tsx (its lines 118 to
  193) has the same body, with \<open>compensationSpaceAndroid\<close> where this one has
  \<open>compensationSpaceIos\<close>. The text that is measured is rendered without a limit of lines,
  so \<open>textLinesRef\<close> holds all the lines of the text.

  This computation divides by lengths and by averages that may be 0, so its numbers are
  those of JavaScript: a finite real, an infinity or \<open>NaN\<close>. Zero has no sign here: the
  divisors are lengths and averages of the widths the host measured, never \<open>-0\<close>.
\<close>

datatype number = Finite real | PositiveInfinity | NegativeInfinity | NaN

fun numNegate :: "number \<Rightarrow> number" where
  "numNegate (Finite a) = Finite (- a)"
| "numNegate PositiveInfinity = NegativeInfinity"
| "numNegate NegativeInfinity = PositiveInfinity"
| "numNegate NaN = NaN"

fun numAdd :: "number \<Rightarrow> number \<Rightarrow> number" where
  "numAdd NaN b = NaN"
| "numAdd a NaN = NaN"
| "numAdd (Finite a) (Finite b) = Finite (a + b)"
| "numAdd PositiveInfinity NegativeInfinity = NaN"
| "numAdd NegativeInfinity PositiveInfinity = NaN"
| "numAdd (Finite a) b = b"
| "numAdd a b = a"

definition numSubtract :: "number \<Rightarrow> number \<Rightarrow> number" where
  "numSubtract a b = numAdd a (numNegate b)"

fun numSign :: "number \<Rightarrow> real" where
  "numSign (Finite a) = sgn a"
| "numSign PositiveInfinity = 1"
| "numSign NegativeInfinity = - 1"
| "numSign NaN = 0"

text \<open>The infinity of a sign; \<open>NaN\<close> when the sign is 0, as in \<open>0 * Infinity\<close> and \<open>0 / 0\<close>.\<close>

definition infinityOfSign :: "real \<Rightarrow> number" where
  "infinityOfSign g =
     (if g = 0 then NaN else if 0 < g then PositiveInfinity else NegativeInfinity)"

fun numMultiply :: "number \<Rightarrow> number \<Rightarrow> number" where
  "numMultiply NaN b = NaN"
| "numMultiply a NaN = NaN"
| "numMultiply (Finite a) (Finite b) = Finite (a * b)"
| "numMultiply a b = infinityOfSign (numSign a * numSign b)"

fun numDivide :: "number \<Rightarrow> number \<Rightarrow> number" where
  "numDivide NaN b = NaN"
| "numDivide a NaN = NaN"
| "numDivide (Finite a) (Finite b) = (if b = 0 then infinityOfSign a else Finite (a / b))"
| "numDivide (Finite a) b = Finite 0"
| "numDivide a (Finite b) = (if b < 0 then numNegate a else a)"
| "numDivide a b = NaN"

text \<open>\<open>a <= b\<close>\<close>

fun numLessEq :: "number \<Rightarrow> number \<Rightarrow> bool" where
  "numLessEq NaN b = False"
| "numLessEq a NaN = False"
| "numLessEq (Finite a) (Finite b) = (a \<le> b)"
| "numLessEq NegativeInfinity b = True"
| "numLessEq a PositiveInfinity = True"
| "numLessEq a b = False"

fun mathCeil :: "number \<Rightarrow> number" where
  "mathCeil (Finite a) = Finite (of_int \<lceil>a\<rceil>)"
| "mathCeil a = a"

text \<open>
  \<open>s.slice(0, end)\<close>, where \<open>end\<close> is \<open>undefined\<close> or a number: the number is cut to an
  integer toward zero (\<open>NaN\<close> to 0), a negative one counts from the end of the string, and
  the result is clamped to the string.
\<close>

fun sliceFromStart :: "jsstring \<Rightarrow> number option \<Rightarrow> jsstring" where
  "sliceFromStart s None = s"
| "sliceFromStart s (Some (Finite a)) =
     (let k = (if 0 \<le> a then \<lfloor>a\<rfloor> else \<lceil>a\<rceil>)
      in if k < 0 then take (nat (int (length s) + k)) s else take (nat k) s)"
| "sliceFromStart s (Some PositiveInfinity) = s"
| "sliceFromStart s (Some NegativeInfinity) = []"
| "sliceFromStart s (Some NaN) = []"

text \<open>The props that the computation of rnShowMoreText.ios.tsx reads.\<close>

record PropsIos =
  numberOfLinesIos :: nat
  childrenIos :: jsstring
  readMoreTextIos :: "jsstring option"
  compensationSpaceIos :: real

text \<open>\<open>(readMoreText || "Show more").length + compensationSpaceIos\<close>\<close>

definition readMoreTextLengthIos :: "PropsIos \<Rightarrow> real" where
  "readMoreTextLengthIos p =
     real (length (case readMoreTextIos p of
                     None \<Rightarrow> utf16 ''Show more''
                   | Some t \<Rightarrow> if t = [] then utf16 ''Show more'' else t))
     + compensationSpaceIos p"

text \<open>
  The \<open>for\<close> loop over the visible lines: for each, its width divided by the length of its
  text without the final newline.
\<close>

definition characterWidthsByLineOf :: "TextLayoutLine list \<Rightarrow> number list" where
  "characterWidthsByLineOf visibleLines =
     map (\<lambda>l. numDivide (Finite (line_width l))
                 (Finite (real (length (stripTrailingNewline (line_text l))))))
       visibleLines"

text \<open>
  calculateTruncatedText of rnShowMoreText.ios.tsx, on the refs and the state of the
  component (those of \<open>Component\<close> that it has). With \<open>numberOfLines\<close> 0 the read of
  \<open>textLinesRef.current[numberOfLines - 1].width\<close> throws.
\<close>

definition calculateTruncatedTextIos :: "PropsIos \<Rightarrow> Component \<Rightarrow> error + Component" where
  "calculateTruncatedTextIos p s =
     (if length (textLinesRef s) = 0 \<or> containerWidthRef s = 0 then Inr s
      else
        let s1 = s\<lparr>isCalculationCompleteRef := True, hasPropsChangedRef := False\<rparr>;
            lines = textLinesRef s1
        in if numberOfLinesIos p \<le> length lines
           then
             (if numberOfLinesIos p = 0 then Inl TypeError
              else
                let visibleText = concat (map line_text (take (numberOfLinesIos p) lines));
                    characterWidthsByLine =
                      characterWidthsByLineOf (take (numberOfLinesIos p) lines);
                    averageCharacterWidth =
                      numDivide (foldl numAdd (Finite 0) characterWidthsByLine)
                        (Finite (real (length characterWidthsByLine)));
                    lastLineWidth = Finite (line_width (lines ! (numberOfLinesIos p - 1)));
                    targetLastLineWidth =
                      numSubtract (Finite (containerWidthRef s1))
                        (numMultiply averageCharacterWidth (Finite (readMoreTextLengthIos p)));
                    visibleText = stripTrailingNewline visibleText;
                    truncated =
                      trim (sliceFromStart visibleText
                              (if numLessEq lastLineWidth targetLastLineWidth then None
                               else Some (numNegate (mathCeil
                                      (numDivide (numSubtract lastLineWidth targetLastLineWidth)
                                         averageCharacterWidth)))))
                      @ utf16 ''... ''
                in Inr (s1\<lparr>truncatedTextRef := truncated, fullTextRef := truncated,
                           isNeedReadMore := True, renderTrigger := \<not> renderTrigger s1\<rparr>))
           else Inr (s1\<lparr>isNeedReadMore := False, renderTrigger := \<not> renderTrigger s1\<rparr>))"

section \<open>Tables of the platform used for concrete texts\<close>

text \<open>
  Modelled from the spec: the property \<open>Extended_Pictographic\<close> ("extended pictographic"
  code points) is a table of the JavaScript engine. These are its ranges in Unicode 15.0;
  the regional indicators U+1F1E6..U+1F1FF are not among them. The theorems that hold for
  every table keep the parameter \<open>ep\<close>; this one evaluates concrete texts.
\<close>

definition Extended_Pictographic_ranges :: "(nat \<times> nat) list" where
  "Extended_Pictographic_ranges =
     [(0xA9, 0xA9), (0xAE, 0xAE), (0x203C, 0x203C), (0x2049, 0x2049), (0x2122, 0x2122),
      (0x2139, 0x2139), (0x2194, 0x2199), (0x21A9, 0x21AA), (0x231A, 0x231B),
      (0x2328, 0x2328), (0x2388, 0x2388), (0x23CF, 0x23CF), (0x23E9, 0x23F3),
      (0x23F8, 0x23FA), (0x24C2, 0x24C2), (0x25AA, 0x25AB), (0x25B6, 0x25B6),
      (0x25C0, 0x25C0), (0x25FB, 0x25FE), (0x2600, 0x2605), (0x2607, 0x2612),
      (0x2614, 0x2685), (0x2690, 0x2705), (0x2708, 0x2712), (0x2714, 0x2714),
      (0x2716, 0x2716), (0x271D, 0x271D), (0x2721, 0x2721), (0x2728, 0x2728),
      (0x2733, 0x2734), (0x2744, 0x2744), (0x2747, 0x2747), (0x274C, 0x274C),
      (0x274E, 0x274E), (0x2753, 0x2755), (0x2757, 0x2757), (0x2763, 0x2767),
      (0x2795, 0x2797), (0x27A1, 0x27A1), (0x27B0, 0x27B0), (0x27BF, 0x27BF),
      (0x2934, 0x2935), (0x2B05, 0x2B07), (0x2B1B, 0x2B1C), (0x2B50, 0x2B50),
      (0x2B55, 0x2B55), (0x3030, 0x3030), (0x303D, 0x303D), (0x3297, 0x3297),
      (0x3299, 0x3299), (0x1F000, 0x1F0FF), (0x1F10D, 0x1F10F), (0x1F12F, 0x1F12F),
      (0x1F16C, 0x1F171), (0x1F17E, 0x1F17F), (0x1F18E, 0x1F18E), (0x1F191, 0x1F19A),
      (0x1F1AD, 0x1F1E5), (0x1F201, 0x1F20F), (0x1F21A, 0x1F21A), (0x1F22F, 0x1F22F),
      (0x1F232, 0x1F23A), (0x1F23C, 0x1F23F), (0x1F249, 0x1F3FA), (0x1F400, 0x1F53D),
      (0x1F546, 0x1F64F), (0x1F680, 0x1F6FF), (0x1F774, 0x1F77F), (0x1F7D5, 0x1F7FF),
      (0x1F80C, 0x1F80F), (0x1F848, 0x1F84F), (0x1F85A, 0x1F85F), (0x1F888, 0x1F88F),
      (0x1F8AE, 0x1F8FF), (0x1F90C, 0x1F93A), (0x1F93C, 0x1F945), (0x1F947, 0x1FAFF),
      (0x1FC00, 0x1FFFD)]"

definition Extended_Pictographic :: "nat \<Rightarrow> bool" where
  "Extended_Pictographic c =
     list_ex (\<lambda>(lo, hi). lo \<le> c \<and> c \<le> hi) Extended_Pictographic_ranges"

text \<open>
  Modelled from the spec: \<open>normalize("NFC")\<close> ("a canonical composed Unicode form") is a
  function of the JavaScript engine. The concrete texts evaluated below (ASCII, emoji, an
  ideograph) are in that form already, and on such a text it returns the text.
\<close>

definition normalizeOnNFC :: "jsstring \<Rightarrow> jsstring" where
  "normalizeOnNFC s = s"

section \<open>The estimate as the specification words it\<close>

text \<open>
  The estimate of the width of one unit as the specification words it: the naive average,
  made larger when the balance is negative and smaller when it is positive.
\<close>

definition balanceCorrectedEstimate :: "real \<Rightarrow> nat \<Rightarrow> nat \<Rightarrow> nat \<Rightarrow> nat \<Rightarrow> real" where
  "balanceCorrectedEstimate lineWidth vl sc ec lc =
     (let naive = lineWidth / real vl;
          balance = real ec + 0.5 * real lc - 0.5 * real sc
      in if balance < 0 then naive * (1 + \<bar>balance\<bar> / real vl)
         else if 0 < balance then naive * (1 - \<bar>balance\<bar> / real vl)
         else naive)"

section \<open>The truncation for given unit widths\<close>

text \<open>
  The text that the truncation shows when the width of the affordance is computed with the
  unit width \<open>affordanceUnit\<close> and the slice position with the unit width \<open>sliceUnit\<close>: the
  visible lines, cut from the end by the slice position when the last visible line and the
  affordance do not fit in the container. \<open>lastVisibleRow\<close> is the text of the last visible
  line, without its final newline.
\<close>

definition lastVisibleRow :: "Props \<Rightarrow> TextLayoutLine list \<Rightarrow> jsstring" where
  "lastVisibleRow p lines = stripTrailingNewline (line_text (lines ! (numberOfLines p - 1)))"

definition truncationWith ::
  "(jsstring \<Rightarrow> jsstring) \<Rightarrow> (nat \<Rightarrow> bool) \<Rightarrow> Props \<Rightarrow> TextLayoutLine list \<Rightarrow> real \<Rightarrow> real \<Rightarrow> real \<Rightarrow>
   jsstring" where
  "truncationWith nfc ep p lines containerWidth affordanceUnit sliceUnit =
     (let row = lines ! (numberOfLines p - 1);
          lastRowText = stripTrailingNewline (line_text row);
          visibleText =
            stripTrailingNewline (concat (map line_text (take (numberOfLines p) lines)));
          affordanceWidth =
            stringWidthOf nfc ep (readMoreTextContent p) affordanceUnit (isMonospaced p)
              (shortWidthCharacters p) (longWidthCharacters p);
          dropUnits =
            (if line_width row \<le> containerWidth - affordanceWidth then 0
             else slicePosOf nfc ep lastRowText sliceUnit
                    (affordanceWidth + compensationSpaceAndroid p * sliceUnit)
                    (isMonospaced p) (shortWidthCharacters p) (longWidthCharacters p))
      in trim (visualSliceHelper ep visibleText 0
                 (if dropUnits = 0 then None else Some dropUnits)))"

section \<open>The slice position as the specification words it\<close>

text \<open>
  The visual units of a text: one for each emoji cluster that \<open>EMOJI_REGEX\<close> finds, one
  for each other character.
\<close>

datatype visualUnit = Emoji | Character jsstring

function visualUnits :: "(nat \<Rightarrow> bool) \<Rightarrow> jsstring \<Rightarrow> visualUnit list" where
  "visualUnits ep xs =
     (case EMOJI_REGEX ep xs of
        Some n \<Rightarrow> Emoji # visualUnits ep (drop n xs)
      | None \<Rightarrow>
          (case codePointAt xs of
             None \<Rightarrow> []
           | Some (c, n) \<Rightarrow> Character (take n xs) # visualUnits ep (drop n xs)))"
  by pat_completeness auto
termination
  apply (relation "measure (\<lambda>(ep, xs). length xs)")
    apply simp
   apply (auto dest!: EMOJI_REGEX_units codePointAt_units)
  done

declare visualUnits.simps [simp del]

text \<open>
  The multiplier of a character: a space is Short; else a member of the short set or of the
  default short characters is Short, a member of the long set or of the default long
  characters is Long, anything else Normal.
\<close>

definition classMultiplier :: "jsstring list \<Rightarrow> jsstring list \<Rightarrow> jsstring \<Rightarrow> real" where
  "classMultiplier shortSet longSet c =
     (if c = [0x20] then 0.5
      else if c \<in> set shortSet \<union> set SHORT_CHARACTERS then 0.5
      else if c \<in> set longSet \<union> set LONG_CHARACTERS then 1.5
      else 1)"

text \<open>
  The width of a unit: twice the unit width for an emoji; for a character the unit width
  times its multiplier, or the unit width itself in monospaced mode.
\<close>

definition perUnitWidth ::
  "real \<Rightarrow> bool \<Rightarrow> jsstring list \<Rightarrow> jsstring list \<Rightarrow> visualUnit \<Rightarrow> real" where
  "perUnitWidth unitWidth monospaced shortSet longSet u =
     (case u of
        Emoji \<Rightarrow> unitWidth * 2
      | Character c \<Rightarrow>
          if monospaced then unitWidth else unitWidth * classMultiplier shortSet longSet c)"

text \<open>
  The walk from the end, over the units in reverse order: stop as soon as the accumulated
  width reaches the target; the units consumed are the result, one more when the unit just
  before the cut is a plain space; when the target is never reached, all units.
\<close>

fun dropFromEnd :: "real \<Rightarrow> (visualUnit \<Rightarrow> real) \<Rightarrow> visualUnit list \<Rightarrow> real \<Rightarrow> nat \<Rightarrow> nat" where
  "dropFromEnd targetWidth width [] accumulated consumed = consumed"
| "dropFromEnd targetWidth width (u # before) accumulated consumed =
     (if targetWidth \<le> accumulated + width u
      then (case before of
              Character c # _ \<Rightarrow> if c = [0x20] then consumed + 2 else consumed + 1
            | _ \<Rightarrow> consumed + 1)
      else dropFromEnd targetWidth width before (accumulated + width u) (consumed + 1))"

definition unitsToDropFromEnd ::
  "(jsstring \<Rightarrow> jsstring) \<Rightarrow> (nat \<Rightarrow> bool) \<Rightarrow> jsstring \<Rightarrow> real \<Rightarrow> real \<Rightarrow> bool \<Rightarrow> jsstring list \<Rightarrow>
   jsstring list \<Rightarrow> nat" where
  "unitsToDropFromEnd nfc ep t unitWidth targetWidth monospaced shortSet longSet =
     dropFromEnd targetWidth (perUnitWidth unitWidth monospaced shortSet longSet)
       (rev (visualUnits ep (nfc t))) 0 0"





section \<open>Concrete inputs\<close>

text \<open>
  A component just mounted with a container 300 wide, and the same component once the two
  layout handlers have stored the lines and the width of the container.
\<close>

definition mountedComponent :: Component where
  "mountedComponent =
     \<lparr>isNeedReadMore = False, renderTrigger = False, isShowingFullTextRef = False,
      fullTextRef = utf16 ''Lorem ipsum dolor'', truncatedTextRef = utf16 ''Lorem ipsum dolor'',
      containerWidthRef = 300, textLinesRef = [], isCalculationCompleteRef = False,
      hasPropsChangedRef = True, oldChildren = utf16 ''Lorem ipsum dolor'',
      moduleCache = []\<rparr>"

definition measuredComponent :: "TextLayoutLine list \<Rightarrow> real \<Rightarrow> Component" where
  "measuredComponent lines w =
     mountedComponent\<lparr>textLinesRef := lines, containerWidthRef := w\<rparr>"

text \<open>
  The text \<open>Lorem ipsum dolor\<close> laid out on two lines, with two lines allowed: the props of
  the component of rnShowMoreText.ios.tsx and those of rnShowMoreText.tsx.
\<close>

definition twoLines :: "TextLayoutLine list" where
  "twoLines =
     [\<lparr>line_text = utf16 ''Lorem ipsum '', line_width = 120\<rparr>,
      \<lparr>line_text = utf16 ''dolor'', line_width = 50\<rparr>]"

definition twoLinesPropsIos :: PropsIos where
  "twoLinesPropsIos =
     \<lparr>numberOfLinesIos = 2, childrenIos = utf16 ''Lorem ipsum dolor'', readMoreTextIos = None,
      compensationSpaceIos = 7\<rparr>"

definition twoLinesProps :: Props where
  "twoLinesProps =
     \<lparr>numberOfLines = 2, children = utf16 ''Lorem ipsum dolor'', readMoreText = None,
      compensationSpaceAndroid = 7, isMonospaced = False, shortWidthCharacters = [],
      longWidthCharacters = []\<rparr>"

text \<open>
  One line allowed and no compensation, for a text of two lines: a first line of ten \<open>i\<close>,
  100 wide, and a first line of three emoji U+1F600, 60 wide.
\<close>

definition oneLineProps :: "jsstring \<Rightarrow> Props" where
  "oneLineProps t =
     \<lparr>numberOfLines = 1, children = t, readMoreText = None,
      compensationSpaceAndroid = 0, isMonospaced = False, shortWidthCharacters = [],
      longWidthCharacters = []\<rparr>"

definition shortRowLines :: "TextLayoutLine list" where
  "shortRowLines =
     [\<lparr>line_text = utf16 ''iiiiiiiiii'', line_width = 100\<rparr>,
      \<lparr>line_text = utf16 ''x'', line_width = 10\<rparr>]"

definition emojiRowLines :: "TextLayoutLine list" where
  "emojiRowLines =
     [\<lparr>line_text = [0xD83D, 0xDE00, 0xD83D, 0xDE00, 0xD83D, 0xDE00], line_width = 60\<rparr>,
      \<lparr>line_text = utf16 ''x'', line_width = 10\<rparr>]"



section \<open>Evaluation\<close>

text \<open>The equations that unfold the model on a concrete text.\<close>

lemmas str_eval =
  isLeadingSurrogate_def isTrailingSurrogate_def execFrom.simps SIMPLE_EMOJI_REGEX_def
  EMOJI_REGEX_def advanceStringIndex_def optFE0F_def zwjSequence.simps simpleTail.simps
  slice_str_def Regional_Indicator_def utf16_def Extended_Pictographic_def
  Extended_Pictographic_ranges_def normalizeOnNFC_def charAt_def segmentLoop.simps
  visualSegments_def visualSliceHelper_def

lemmas helper_eval =
  getNormalizedString_def allShortCharactersOf_def allLongCharactersOf_def
  SHORT_CHARACTERS_def LONG_CHARACTERS_def countShortCharactersHelper_def
  visualLengthLoop.simps getVisualLengthHelper_def getCharWidth_def markEmojiLoop.simps
  monoCharIndexLoop.simps regularScan.simps widthCharLoop.simps widthCharIndex_def
  spaceCharLoop.simps spaceCharIndex_def slicePositionOf_def calculateSlicePositionHelper_def
  monoWidthLoop.simps addCharWidths_def propWidthLoop.simps calculateStringWidthHelper_def
  balanceDiffHelper_def Let_def

lemmas engine_eval =
  calculateTruncatedText_def lastRowOf_def lastRowForWidthCalcOf_def avgCharWidthOf_def
  stringWidthCharWidth_def slicePositionCharWidth_def slicePositionTargetWidth_def
  readMoreTextContent_def trim_def isWhiteSpace_def endsWithNewline_def
  stripTrailingNewline_def layoutEffect_def displayText_def

lemmas spec_eval =
  visualUnits.simps classMultiplier_def perUnitWidth_def unitsToDropFromEnd_def

section \<open>The segments of visualSliceHelper\<close>

lemma concat_codePointStrings: "concat (codePointStrings xs) = xs"
  by (induction xs rule: codePointStrings.induct) simp_all

lemma codePointStrings_Nil_iff: "codePointStrings xs = [] \<longleftrightarrow> xs = []"
  by (cases xs rule: codePointStrings.cases) simp_all

lemma slice_append:
  "a \<le> b \<Longrightarrow> b \<le> c \<Longrightarrow> slice_str s a b @ slice_str s b c = slice_str s a c"
proof -
  assume ab: "a \<le> b" and bc: "b \<le> c"
  have "take (b - a) (drop a s) @ take (c - b) (drop (b - a) (drop a s)) = take ((b - a) + (c - b)) (drop a s)"
    by (simp only: take_add)
  with ab bc show ?thesis by (simp add: slice_str_def)
qed

lemma slice_same: "slice_str s a a = []"
  by (simp add: slice_str_def)

lemma segmentLoop_concat:
  "segmentLoop ep s lastIndex segments = (segments', lastIndex') \<Longrightarrow>
   concat segments' = concat segments @ slice_str s lastIndex lastIndex'
   \<and> lastIndex \<le> lastIndex' \<and> lastIndex' \<le> max lastIndex (length s)"
proof (induction ep s lastIndex segments rule: segmentLoop.induct)
  case (1 ep s lastIndex segments)
  show ?case
  proof (cases "execFrom (SIMPLE_EMOJI_REGEX ep) s lastIndex")
    case None
    with "1.prems" show ?thesis
      by (simp add: segmentLoop.simps [of ep s lastIndex] slice_same)
  next
    case (Some m)
    obtain index e where m: "m = (index, e)" by (cases m)
    have b: "lastIndex \<le> index \<and> index < e \<and> e \<le> length s"
      using Some m execFrom_SIMPLE_bounds by blast
    let ?segs = "segments
             @ (if lastIndex < index then codePointStrings (slice_str s lastIndex index) else [])
             @ [slice_str s index e]"
    have run: "segmentLoop ep s e ?segs = (segments', lastIndex')"
      using "1.prems" Some m by (simp add: segmentLoop.simps [of ep s lastIndex])
    have ih: "concat segments' = concat ?segs @ slice_str s e lastIndex'
        \<and> e \<le> lastIndex' \<and> lastIndex' \<le> max e (length s)"
      using "1.IH" [OF Some m [symmetric] run] .
    have "concat ?segs = concat segments @ slice_str s lastIndex e"
    proof (cases "lastIndex < index")
      case True
      then show ?thesis using b by (simp add: concat_codePointStrings slice_append)
    next
      case False
      with b have "lastIndex = index" by simp
      then show ?thesis by simp
    qed
    then have "concat segments' = (concat segments @ slice_str s lastIndex e) @ slice_str s e lastIndex'"
      using ih by (simp only:)
    also have "\<dots> = concat segments @ slice_str s lastIndex lastIndex'"
      using b ih by (simp add: slice_append)
    finally show ?thesis
      using b ih by auto
  qed
qed

lemma concat_visualSegments: "concat (visualSegments ep s) = s"
proof -
  obtain segments lastIndex where run: "segmentLoop ep s 0 [] = (segments, lastIndex)"
    by (cases "segmentLoop ep s 0 []")
  from segmentLoop_concat [OF run]
  have c: "concat segments = slice_str s 0 lastIndex" and le: "lastIndex \<le> length s"
    by simp_all
  have "slice_str s 0 lastIndex @ drop lastIndex s = s"
    by (simp add: slice_str_def)
  moreover have "\<not> lastIndex < length s \<Longrightarrow> drop lastIndex s = []"
    by simp
  ultimately show ?thesis
    using run c by (auto simp: visualSegments_def concat_codePointStrings)
qed

text \<open>
  C10. For every string \<open>text\<close>, \<open>visualSliceHelper(text, 0)\<close> with the end omitted returns
  \<open>text\<close> itself: cutting a string into visual units and joining all of them again is the
  identity. This holds for every table \<open>ep\<close> of pictographic code points.
\<close>

theorem visualSliceHelper_whole_text: "visualSliceHelper ep s 0 None = s"
proof (cases "s = []")
  case True
  then show ?thesis by (simp add: visualSliceHelper_def)
next
  case False
  have c: "concat (visualSegments ep s) = s"
    by (rule concat_visualSegments)
  with False have "visualSegments ep s \<noteq> []"
    by auto
  then have "0 < length (visualSegments ep s)"
    by simp
  with False c show ?thesis
    by (simp add: visualSliceHelper_def Let_def)
qed

text \<open>
  C1. The claim: the string visualSliceHelper returns never holds a part of an emoji
  cluster; for a flag of two regional indicators, every cut yields the whole flag or none of
  it. The code does otherwise. \<open>SIMPLE_EMOJI_REGEX\<close> has no alternative for a pair of
  regional indicators, as \<open>EMOJI_REGEX\<close> has, so each indicator is a segment of its own:
  on the flag U+1F1FA U+1F1F8 the slice from 0 to 1 is the lone indicator U+1F1FA, and on
  \<open>ab\<close> followed by the flag the slice that drops one unit from the end keeps U+1F1FA.
\<close>

theorem visualSliceHelper_splits_flag:
  "visualSliceHelper Extended_Pictographic [0xD83C, 0xDDFA, 0xD83C, 0xDDF8] 0 (Some 1)
     = [0xD83C, 0xDDFA]
   \<and> visualSliceHelper Extended_Pictographic
       (utf16 ''ab'' @ [0xD83C, 0xDDFA, 0xD83C, 0xDDF8]) 0 (Some (- 1))
     = utf16 ''ab'' @ [0xD83C, 0xDDFA]"
  by (simp add: str_eval)

section \<open>The slice position grows with the target width\<close>

lemma monoScan_bounds:
  "slicePosition + n = totalLength \<Longrightarrow>
   - int totalLength \<le> monoScan ep normalized charWidth targetWidth emojiPositions totalLength n
        accumulatedWidth slicePosition
   \<and> monoScan ep normalized charWidth targetWidth emojiPositions totalLength n
        accumulatedWidth slicePosition \<le> - int (slicePosition + (if n = 0 then 0 else 1))"
proof (induction n arbitrary: accumulatedWidth slicePosition)
  case 0
  then show ?case by simp
next
  case (Suc i)
  let ?acc = "accumulatedWidth + (if i \<in> emojiPositions then charWidth * 2 else charWidth)"
  have inv: "(slicePosition + 1) + i = totalLength"
    using Suc.prems by simp
  show ?case
  proof (cases "targetWidth \<le> ?acc")
    case True
    with Suc.prems show ?thesis
      by (auto simp: Let_def)
  next
    case False
    with Suc.IH [OF inv, of ?acc] show ?thesis
      by (auto simp: Let_def split: if_splits)
  qed
qed

lemma monoScan_mono:
  "t1 \<le> t2 \<Longrightarrow> slicePosition + n = totalLength \<Longrightarrow>
   monoScan ep normalized charWidth t2 emojiPositions totalLength n accumulatedWidth slicePosition
   \<le> monoScan ep normalized charWidth t1 emojiPositions totalLength n accumulatedWidth
        slicePosition"
proof (induction n arbitrary: accumulatedWidth slicePosition)
  case 0
  then show ?case by simp
next
  case (Suc i)
  let ?acc = "accumulatedWidth + (if i \<in> emojiPositions then charWidth * 2 else charWidth)"
  have inv: "(slicePosition + 1) + i = totalLength"
    using Suc.prems by simp
  show ?case
  proof (cases "t2 \<le> ?acc")
    case True
    with Suc.prems(1) have "t1 \<le> ?acc" by simp
    with True show ?thesis by (simp add: Let_def)
  next
    case False
    note not2 = False
    show ?thesis
    proof (cases "t1 \<le> ?acc")
      case False
      with not2 Suc.IH [OF Suc.prems(1) inv, of ?acc] show ?thesis
        by (simp add: Let_def)
    next
      case True
      have b: "monoScan ep normalized charWidth t2 emojiPositions totalLength i ?acc
                 (slicePosition + 1) \<le> - int (slicePosition + 1 + (if i = 0 then 0 else 1))"
        using monoScan_bounds [OF inv] by blast
      from True not2 b show ?thesis
        by (auto simp: Let_def)
    qed
  qed
qed

lemma propScan_bounds:
  "slicePosition + n = totalLength \<Longrightarrow>
   - int totalLength \<le> propScan ep normalized charWidth targetWidth allShort allLong
        emojiPositions totalLength n accumulatedWidth slicePosition regexLastIndex
   \<and> propScan ep normalized charWidth targetWidth allShort allLong emojiPositions totalLength n
        accumulatedWidth slicePosition regexLastIndex
       \<le> - int (slicePosition + (if n = 0 then 0 else 1))"
proof (induction n arbitrary: accumulatedWidth slicePosition regexLastIndex)
  case 0
  then show ?case by simp
next
  case (Suc i)
  obtain width r where wr:
    "(if i \<in> emojiPositions then (charWidth * 2, regexLastIndex)
      else (case widthCharIndex ep normalized i regexLastIndex of
              (charIndex, r) \<Rightarrow>
                (getCharWidth charWidth allShort allLong
                   (case charAt normalized charIndex of None \<Rightarrow> [] | Some c \<Rightarrow> c),
                 r))) = (width, r)"
    by (cases "(if i \<in> emojiPositions then (charWidth * 2, regexLastIndex)
      else (case widthCharIndex ep normalized i regexLastIndex of
              (charIndex, r) \<Rightarrow>
                (getCharWidth charWidth allShort allLong
                   (case charAt normalized charIndex of None \<Rightarrow> [] | Some c \<Rightarrow> c),
                 r)))") auto
  let ?acc = "accumulatedWidth + width"
  have inv: "(slicePosition + 1) + i = totalLength"
    using Suc.prems by simp
  show ?case
  proof (cases "targetWidth \<le> ?acc")
    case True
    with Suc.prems wr show ?thesis
      by (auto simp: Let_def)
  next
    case False
    with wr Suc.IH [OF inv, of ?acc r] show ?thesis
      by (auto simp: Let_def split: if_splits)
  qed
qed

lemma propScan_mono:
  "t1 \<le> t2 \<Longrightarrow> slicePosition + n = totalLength \<Longrightarrow>
   propScan ep normalized charWidth t2 allShort allLong emojiPositions totalLength n
     accumulatedWidth slicePosition regexLastIndex
   \<le> propScan ep normalized charWidth t1 allShort allLong emojiPositions totalLength n
        accumulatedWidth slicePosition regexLastIndex"
proof (induction n arbitrary: accumulatedWidth slicePosition regexLastIndex)
  case 0
  then show ?case by simp
next
  case (Suc i)
  obtain width r where wr:
    "(if i \<in> emojiPositions then (charWidth * 2, regexLastIndex)
      else (case widthCharIndex ep normalized i regexLastIndex of
              (charIndex, r) \<Rightarrow>
                (getCharWidth charWidth allShort allLong
                   (case charAt normalized charIndex of None \<Rightarrow> [] | Some c \<Rightarrow> c),
                 r))) = (width, r)"
    by (cases "(if i \<in> emojiPositions then (charWidth * 2, regexLastIndex)
      else (case widthCharIndex ep normalized i regexLastIndex of
              (charIndex, r) \<Rightarrow>
                (getCharWidth charWidth allShort allLong
                   (case charAt normalized charIndex of None \<Rightarrow> [] | Some c \<Rightarrow> c),
                 r)))") auto
  let ?acc = "accumulatedWidth + width"
  have inv: "(slicePosition + 1) + i = totalLength"
    using Suc.prems by simp
  show ?case
  proof (cases "t2 \<le> ?acc")
    case True
    with Suc.prems(1) have "t1 \<le> ?acc" by simp
    with True wr show ?thesis by (simp add: Let_def)
  next
    case False
    note not2 = False
    show ?thesis
    proof (cases "t1 \<le> ?acc")
      case False
      with not2 wr Suc.IH [OF Suc.prems(1) inv, of ?acc r] show ?thesis
        by (simp add: Let_def)
    next
      case True
      have b: "propScan ep normalized charWidth t2 allShort allLong emojiPositions totalLength
                 i ?acc (slicePosition + 1) r
               \<le> - int (slicePosition + 1 + (if i = 0 then 0 else 1))"
        using propScan_bounds [OF inv] by blast
      from True not2 b wr show ?thesis
        by (auto simp: Let_def)
    qed
  qed
qed

lemma slicePositionOf_mono:
  "t1 \<le> t2 \<Longrightarrow>
   slicePositionOf ep normalized charWidth t2 monospaced cs cl
   \<le> slicePositionOf ep normalized charWidth t1 monospaced cs cl"
  by (auto simp: slicePositionOf_def Let_def split: prod.splits
      intro!: monoScan_mono propScan_mono)

lemma slicePositionOf_nonpos:
  "slicePositionOf ep normalized charWidth t monospaced cs cl \<le> 0"
proof -
  have "monoScan ep normalized charWidth t E n n 0 0 \<le> 0" for E n
    using monoScan_bounds [of 0 n n ep normalized charWidth t E 0] by simp
  moreover have "propScan ep normalized charWidth t S L E n n 0 0 0 \<le> 0" for S L E n
    using propScan_bounds [of 0 n n ep normalized charWidth t S L E 0 0] by simp
  ultimately show ?thesis
    by (auto simp: slicePositionOf_def Let_def split: prod.splits)
qed

lemma calculateSlicePositionHelper_nonpos:
  "fst (calculateSlicePositionHelper nfc ep s charWidth t monospaced cs cl cache) \<le> 0"
  by (auto simp: calculateSlicePositionHelper_def Let_def slicePositionOf_nonpos
      split: prod.splits)

text \<open>
  C7. For a fixed text, unit width, monospaced flag and override sets, the number of
  trailing units calculateSlicePositionHelper returns (the magnitude of its result) does
  not decrease when the target width grows.
\<close>

theorem calculateSlicePositionHelper_monotone:
  assumes "t1 \<le> t2"
  shows "\<bar>fst (calculateSlicePositionHelper nfc ep s charWidth t1 monospaced cs cl cache)\<bar>
         \<le> \<bar>fst (calculateSlicePositionHelper nfc ep s charWidth t2 monospaced cs cl cache)\<bar>"
proof -
  have "fst (calculateSlicePositionHelper nfc ep s charWidth t2 monospaced cs cl cache)
        \<le> fst (calculateSlicePositionHelper nfc ep s charWidth t1 monospaced cs cl cache)"
    using assms slicePositionOf_mono [OF assms]
      calculateSlicePositionHelper_nonpos [of nfc ep s charWidth t2 monospaced cs cl cache]
    by (auto simp: calculateSlicePositionHelper_def Let_def slicePositionOf_nonpos
        split: prod.splits)
  then show ?thesis
    using calculateSlicePositionHelper_nonpos [of nfc ep s charWidth t1 monospaced cs cl cache]
      calculateSlicePositionHelper_nonpos [of nfc ep s charWidth t2 monospaced cs cl cache]
    by simp
qed

theorem calculateSlicePositionHelper_monotone_witness:
  "(1::real) \<le> 3
   \<and> \<bar>fst (calculateSlicePositionHelper normalizeOnNFC Extended_Pictographic
             (utf16 ''ab cd'') 1 1 False [] [] [])\<bar>
     \<le> \<bar>fst (calculateSlicePositionHelper normalizeOnNFC Extended_Pictographic
               (utf16 ''ab cd'') 1 3 False [] [] [])\<bar>"
  using calculateSlicePositionHelper_monotone
    [of 1 3 normalizeOnNFC Extended_Pictographic "utf16 ''ab cd''" 1 False "[]" "[]" "[]"]
  by simp

section \<open>The normalization cache\<close>

lemma reachableCache_entries:
  "reachableCache nfc cache \<Longrightarrow> map_of cache k = Some v \<Longrightarrow> v = nfc k"
proof (induction arbitrary: k v rule: reachableCache.induct)
  case initial
  then show ?case by simp
next
  case (call cache t)
  then show ?case
    by (auto simp: getNormalizedString_def Let_def split: option.splits if_splits)
qed

lemma getNormalizedString_fst:
  "reachableCache nfc cache \<Longrightarrow> fst (getNormalizedString nfc t cache) = nfc t"
  by (auto simp: getNormalizedString_def Let_def split: option.splits
      dest: reachableCache_entries)

lemma getVisualLengthHelper_cache:
  assumes "reachableCache nfc cache"
  shows "fst (getVisualLengthHelper nfc ep t cs cl cache)
           = fst (getVisualLengthHelper nfc ep t cs cl [])
         \<and> reachableCache nfc (snd (getVisualLengthHelper nfc ep t cs cl cache))"
proof (cases "t = []")
  case True
  with assms show ?thesis by (simp add: getVisualLengthHelper_def)
next
  case False
  have r: "reachableCache nfc (snd (getNormalizedString nfc t cache))"
    by (rule reachableCache.call [OF assms])
  show ?thesis
    using False r
    by (simp add: getVisualLengthHelper_def Let_def split_def
        getNormalizedString_fst [OF assms]
        getNormalizedString_fst [OF reachableCache.initial])
qed

lemma calculateSlicePositionHelper_cache:
  assumes "reachableCache nfc cache"
  shows "fst (calculateSlicePositionHelper nfc ep t w tw m cs cl cache)
           = fst (calculateSlicePositionHelper nfc ep t w tw m cs cl [])
         \<and> reachableCache nfc (snd (calculateSlicePositionHelper nfc ep t w tw m cs cl cache))"
proof (cases "t = [] \<or> tw \<le> 0")
  case True
  with assms show ?thesis by (auto simp: calculateSlicePositionHelper_def)
next
  case False
  have r: "reachableCache nfc (snd (getNormalizedString nfc t cache))"
    by (rule reachableCache.call [OF assms])
  show ?thesis
    using False r
    by (simp add: calculateSlicePositionHelper_def Let_def split_def
        getNormalizedString_fst [OF assms]
        getNormalizedString_fst [OF reachableCache.initial])
qed

lemma calculateStringWidthHelper_cache:
  assumes "reachableCache nfc cache"
  shows "fst (calculateStringWidthHelper nfc ep t w m cs cl cache)
           = fst (calculateStringWidthHelper nfc ep t w m cs cl [])
         \<and> reachableCache nfc (snd (calculateStringWidthHelper nfc ep t w m cs cl cache))"
proof (cases "t = []")
  case True
  with assms show ?thesis by (simp add: calculateStringWidthHelper_def)
next
  case False
  have r: "reachableCache nfc (snd (getNormalizedString nfc t cache))"
    by (rule reachableCache.call [OF assms])
  show ?thesis
    using False r
    by (simp add: calculateStringWidthHelper_def Let_def split_def
        getNormalizedString_fst [OF assms]
        getNormalizedString_fst [OF reachableCache.initial])
qed

lemma helper_results:
  "reachableCache nfc cache \<Longrightarrow>
     fst (getVisualLengthHelper nfc ep t cs cl cache) = profileOf nfc ep t cs cl"
  "reachableCache nfc cache \<Longrightarrow>
     fst (calculateStringWidthHelper nfc ep t w m cs cl cache) = stringWidthOf nfc ep t w m cs cl"
  "reachableCache nfc cache \<Longrightarrow>
     fst (calculateSlicePositionHelper nfc ep t w tw m cs cl cache)
       = slicePosOf nfc ep t w tw m cs cl"
  by (simp_all add: profileOf_def stringWidthOf_def slicePosOf_def
      getVisualLengthHelper_cache calculateStringWidthHelper_cache
      calculateSlicePositionHelper_cache)

lemma helper_caches:
  "reachableCache nfc cache \<Longrightarrow>
     reachableCache nfc (snd (getVisualLengthHelper nfc ep t cs cl cache))"
  "reachableCache nfc cache \<Longrightarrow>
     reachableCache nfc (snd (calculateStringWidthHelper nfc ep t w m cs cl cache))"
  "reachableCache nfc cache \<Longrightarrow>
     reachableCache nfc (snd (calculateSlicePositionHelper nfc ep t w tw m cs cl cache))"
  by (simp_all add: getVisualLengthHelper_cache calculateStringWidthHelper_cache
      calculateSlicePositionHelper_cache)

lemma calculateTruncatedText_cache:
  assumes c1: "reachableCache nfc c1" and c2: "reachableCache nfc c2"
  shows "withoutCache (calculateTruncatedText nfc ep p (s\<lparr>moduleCache := c1\<rparr>))
         = withoutCache (calculateTruncatedText nfc ep p (s\<lparr>moduleCache := c2\<rparr>))"
  using c1 c2
  by (simp add: calculateTruncatedText_def withoutCache_def Let_def split_def
      helper_results helper_caches split: option.splits)

text \<open>
  C9. Two runs of the truncation computation on the same input return the same result
  whatever the normalization cache holds: in every state of the cache, getNormalizedString
  returns the NFC normal form of its input, so the cache never changes an output. The
  states of the cache are those the module can reach, since nothing outside
  getNormalizedString can write to the \<open>Map\<close>.
\<close>

theorem normalizeCache_never_changes_results:
  assumes "reachableCache nfc c1" and "reachableCache nfc c2"
  shows "fst (getNormalizedString nfc t c1) = nfc t
         \<and> withoutCache (calculateTruncatedText nfc ep p (s\<lparr>moduleCache := c1\<rparr>))
           = withoutCache (calculateTruncatedText nfc ep p (s\<lparr>moduleCache := c2\<rparr>))"
  using assms getNormalizedString_fst [OF assms(1)] calculateTruncatedText_cache [OF assms]
  by simp

theorem normalizeCache_never_changes_results_witness:
  "reachableCache normalizeOnNFC [(utf16 ''iiiiiiiiii'', utf16 ''iiiiiiiiii'')]
   \<and> reachableCache normalizeOnNFC []
   \<and> fst (getNormalizedString normalizeOnNFC (utf16 ''iiiiiiiiii'')
        [(utf16 ''iiiiiiiiii'', utf16 ''iiiiiiiiii'')]) = normalizeOnNFC (utf16 ''iiiiiiiiii'')
   \<and> withoutCache (calculateTruncatedText normalizeOnNFC Extended_Pictographic
         (oneLineProps (utf16 ''iiiiiiiiiix''))
         ((measuredComponent shortRowLines 105)
            \<lparr>moduleCache := [(utf16 ''iiiiiiiiii'', utf16 ''iiiiiiiiii'')]\<rparr>))
     = withoutCache (calculateTruncatedText normalizeOnNFC Extended_Pictographic
         (oneLineProps (utf16 ''iiiiiiiiiix''))
         ((measuredComponent shortRowLines 105)\<lparr>moduleCache := []\<rparr>))
   \<and> map_sum id isNeedReadMore
        (calculateTruncatedText normalizeOnNFC Extended_Pictographic
           (oneLineProps (utf16 ''iiiiiiiiiix''))
           ((measuredComponent shortRowLines 105)
              \<lparr>moduleCache := [(utf16 ''iiiiiiiiii'', utf16 ''iiiiiiiiii'')]\<rparr>)) = Inr True"
proof -
  have r2: "reachableCache normalizeOnNFC []"
    by (rule reachableCache.initial)
  have "reachableCache normalizeOnNFC
          (snd (getNormalizedString normalizeOnNFC (utf16 ''iiiiiiiiii'') []))"
    by (rule reachableCache.call [OF r2])
  then have r1: "reachableCache normalizeOnNFC [(utf16 ''iiiiiiiiii'', utf16 ''iiiiiiiiii'')]"
    by (simp add: getNormalizedString_def normalizeOnNFC_def Let_def)
  have t: "map_sum id isNeedReadMore
        (calculateTruncatedText normalizeOnNFC Extended_Pictographic
           (oneLineProps (utf16 ''iiiiiiiiiix''))
           ((measuredComponent shortRowLines 105)
              \<lparr>moduleCache := [(utf16 ''iiiiiiiiii'', utf16 ''iiiiiiiiii'')]\<rparr>)) = Inr True"
    by (simp add: oneLineProps_def measuredComponent_def mountedComponent_def
        shortRowLines_def calculateTruncatedText_def lastRowOf_def split_def Let_def)
  show ?thesis
    using r1 r2 t normalizeCache_never_changes_results [OF r1 r2] by simp
qed

section \<open>The computation when the lines fit\<close>

text \<open>
  calculateTruncatedText of rnShowMoreText.tsx as it is now tests
  \<open>length > numberOfLines\<close>: with its measurements (at least one line and a container width
  that is not 0) and no more lines than the limit it resolves to no truncation, and the
  text displayed is the full text. The computation starts from the state the layout effect
  leaves, whatever the component held before.
\<close>

lemma calculateTruncatedText_lines_fit:
  assumes "lines \<noteq> []" and "w \<noteq> 0" and "length lines \<le> numberOfLines p"
  shows "\<exists>s'. calculateTruncatedText nfc ep p
                ((layoutEffect p s0)\<lparr>textLinesRef := lines, containerWidthRef := w\<rparr>) = Inr s'
              \<and> isCalculationCompleteRef s' \<and> \<not> isNeedReadMore s'
              \<and> displayText p s' = children p"
  using assms
  by (auto simp: calculateTruncatedText_def Let_def displayText_def layoutEffect_def)

text \<open>
  calculateTruncatedText of rnShowMoreText.ios.tsx tests \<open>length >= numberOfLines\<close>: with
  exactly as many lines as the limit it shows the affordance, and the text it shows ends
  with the ellipsis and a space.
\<close>

lemma calculateTruncatedTextIos_at_limit:
  assumes "textLinesRef s \<noteq> []" and "containerWidthRef s \<noteq> 0"
    and "length (textLinesRef s) = numberOfLinesIos p"
  shows "\<exists>s'. calculateTruncatedTextIos p s = Inr s' \<and> isNeedReadMore s'
           \<and> fullTextRef s' \<noteq> [] \<and> last (fullTextRef s') = 0x20"
  using assms
  by (auto simp: calculateTruncatedTextIos_def Let_def utf16_def)

text \<open>
  C2. The claim: whenever the number of line measurements is at most the line limit, the
  engine resolves to no truncation and the text displayed is the full text; so it is when
  the count equals the limit exactly. The component of rnShowMoreText.ios.tsx does not: its
  calculateTruncatedText tests \<open>textLinesRef.current?.length >= numberOfLines\<close>, under the
  comment \<open>Check if text exceeds the specified number of lines\<close>, and so does the first
  state of rnShowMoreText.tsx (line 132). The text \<open>Lorem ipsum dolor\<close> takes two lines,
  two lines are allowed, the container is 300 wide: the average width of a character is 10,
  the affordance needs 16 characters, the last line (50 wide) leaves room for it, so nothing
  is cut, and still the component shows \<open>Lorem ipsum dolor... \<close> followed by the
  affordance. calculateTruncatedText of rnShowMoreText.tsx as it is now, which tests
  \<open>length > numberOfLines\<close>, resolves the same measurements to no truncation.
\<close>

theorem calculateTruncatedText_ios_truncates_fitting_text:
  "length (textLinesRef (measuredComponent twoLines 300)) = numberOfLinesIos twoLinesPropsIos
   \<and> concat (map line_text (textLinesRef (measuredComponent twoLines 300)))
       = childrenIos twoLinesPropsIos
   \<and> calculateTruncatedTextIos twoLinesPropsIos (measuredComponent twoLines 300)
       = Inr ((measuredComponent twoLines 300)
           \<lparr>isCalculationCompleteRef := True, hasPropsChangedRef := False,
            truncatedTextRef := utf16 ''Lorem ipsum dolor... '',
            fullTextRef := utf16 ''Lorem ipsum dolor... '',
            isNeedReadMore := True, renderTrigger := True\<rparr>)
   \<and> calculateTruncatedText normalizeOnNFC Extended_Pictographic twoLinesProps
         (measuredComponent twoLines 300)
       = Inr ((measuredComponent twoLines 300)
           \<lparr>isCalculationCompleteRef := True, hasPropsChangedRef := False,
            isNeedReadMore := False, renderTrigger := True\<rparr>)"
  by (simp add: measuredComponent_def mountedComponent_def twoLines_def twoLinesPropsIos_def
      twoLinesProps_def calculateTruncatedTextIos_def calculateTruncatedText_def
      characterWidthsByLineOf_def readMoreTextLengthIos_def numSubtract_def infinityOfSign_def
      utf16_def trim_def isWhiteSpace_def endsWithNewline_def stripTrailingNewline_def Let_def)

section \<open>The estimate of the unit width\<close>

text \<open>
  With its measurements and more lines than the limit, calculateTruncatedText truncates:
  the text it shows is \<open>truncationWith\<close> for the two unit widths it hands to the helpers,
  \<open>avgCharWidth || 1\<close> to calculateStringWidthHelper and \<open>avgCharWidth\<close> to
  calculateSlicePositionHelper.
\<close>

lemma calculateTruncatedText_truncates:
  assumes "textLinesRef s \<noteq> []" and "containerWidthRef s \<noteq> 0"
    and "numberOfLines p < length (textLinesRef s)" and "0 < numberOfLines p"
    and "reachableCache nfc (moduleCache s)"
  shows "\<exists>s'. calculateTruncatedText nfc ep p s = Inr s'
          \<and> isCalculationCompleteRef s' \<and> isNeedReadMore s'
          \<and> fullTextRef s' =
              truncationWith nfc ep p (textLinesRef s) (containerWidthRef s)
                (stringWidthCharWidth
                   (avgCharWidthOf (line_width (textLinesRef s ! (numberOfLines p - 1)))
                      (profileOf nfc ep (lastVisibleRow p (textLinesRef s))
                         (shortWidthCharacters p) (longWidthCharacters p))))
                (avgCharWidthOf (line_width (textLinesRef s ! (numberOfLines p - 1)))
                   (profileOf nfc ep (lastVisibleRow p (textLinesRef s))
                      (shortWidthCharacters p) (longWidthCharacters p)))"
  using assms
  by (simp add: calculateTruncatedText_def truncationWith_def lastVisibleRow_def Let_def
      split_def lastRowOf_def lastRowForWidthCalcOf_def slicePositionCharWidth_def
      slicePositionTargetWidth_def helper_results helper_caches)

text \<open>
  C3, as stated: for every last visible line whose visual length is not zero, the unit
  width used for the truncation is the average corrected by the balance
  (\<open>balanceCorrectedEstimate\<close>). It is not where that estimate is 0: the width of the
  affordance is then computed with \<open>avgCharWidth || 1\<close>, that is with 1. With one line
  allowed, a first line of three emoji 60 wide and a container 65 wide, the visual length
  is 3, the balance 3 and the estimate \<open>60 / 3 * (1 - 3 / 3) = 0\<close>. With the unit width 0
  for the affordance the line would fit and the three emoji would be shown; the engine
  computes the affordance with the unit width 1, cuts, and shows the empty text.
\<close>

theorem affordance_unit_counterexample:
  "profileOf normalizeOnNFC Extended_Pictographic
     (lastVisibleRow (oneLineProps [0xD83D, 0xDE00, 0xD83D, 0xDE00, 0xD83D, 0xDE00, 0x78])
        emojiRowLines) [] []
     = \<lparr>visualLength = 3, shortCharCount = 0, emojiCount = 3, longCharCount = 0\<rparr>
   \<and> balanceCorrectedEstimate 60 3 0 3 0 = 0
   \<and> map_sum id fullTextRef
        (calculateTruncatedText normalizeOnNFC Extended_Pictographic
           (oneLineProps [0xD83D, 0xDE00, 0xD83D, 0xDE00, 0xD83D, 0xDE00, 0x78])
           (measuredComponent emojiRowLines 65)) = Inr []
   \<and> truncationWith normalizeOnNFC Extended_Pictographic
        (oneLineProps [0xD83D, 0xDE00, 0xD83D, 0xDE00, 0xD83D, 0xDE00, 0x78])
        emojiRowLines 65 0 0 = [0xD83D, 0xDE00, 0xD83D, 0xDE00, 0xD83D, 0xDE00]
   \<and> truncationWith normalizeOnNFC Extended_Pictographic
        (oneLineProps [0xD83D, 0xDE00, 0xD83D, 0xDE00, 0xD83D, 0xDE00, 0x78])
        emojiRowLines 65 1 0 = []"
proof -
  have a: "profileOf normalizeOnNFC Extended_Pictographic
     (lastVisibleRow (oneLineProps [0xD83D, 0xDE00, 0xD83D, 0xDE00, 0xD83D, 0xDE00, 0x78])
        emojiRowLines) [] []
     = \<lparr>visualLength = 3, shortCharCount = 0, emojiCount = 3, longCharCount = 0\<rparr>"
    by (simp add: lastVisibleRow_def oneLineProps_def emojiRowLines_def profileOf_def
        engine_eval str_eval helper_eval)
  have b: "balanceCorrectedEstimate 60 3 0 3 0 = 0"
    by (simp add: balanceCorrectedEstimate_def)
  have c: "map_sum id fullTextRef
        (calculateTruncatedText normalizeOnNFC Extended_Pictographic
           (oneLineProps [0xD83D, 0xDE00, 0xD83D, 0xDE00, 0xD83D, 0xDE00, 0x78])
           (measuredComponent emojiRowLines 65)) = Inr []"
    by (simp add: oneLineProps_def measuredComponent_def mountedComponent_def
        emojiRowLines_def engine_eval str_eval helper_eval)
  have d: "truncationWith normalizeOnNFC Extended_Pictographic
        (oneLineProps [0xD83D, 0xDE00, 0xD83D, 0xDE00, 0xD83D, 0xDE00, 0x78])
        emojiRowLines 65 0 0 = [0xD83D, 0xDE00, 0xD83D, 0xDE00, 0xD83D, 0xDE00]"
    by (simp add: truncationWith_def stringWidthOf_def slicePosOf_def oneLineProps_def
        emojiRowLines_def engine_eval str_eval helper_eval)
  have e: "truncationWith normalizeOnNFC Extended_Pictographic
        (oneLineProps [0xD83D, 0xDE00, 0xD83D, 0xDE00, 0xD83D, 0xDE00, 0x78])
        emojiRowLines 65 1 0 = []"
    by (simp add: truncationWith_def stringWidthOf_def slicePosOf_def oneLineProps_def
        emojiRowLines_def engine_eval str_eval helper_eval)
  from a b c d e show ?thesis by simp
qed

text \<open>
  C3, amended. For every last visible line whose visual length is not zero, the estimate
  of the unit width is the naive average (the measured width of the line divided by its
  visual length) times \<open>1 + |balance| / visualLength\<close> when the balance is negative, times
  \<open>1 - |balance| / visualLength\<close> when it is positive, and the naive average itself when it
  is zero, where the balance is \<open>emojiCount + 0.5 * longCount - 0.5 * shortCount\<close> of the
  profile of that line. The truncation gives this estimate to the slice position as its
  unit width, and to the width of the affordance too when it is not 0; when it is 0 the
  width of the affordance is computed with the unit width 1.
\<close>

theorem estimate_used_for_truncation:
  assumes "textLinesRef s \<noteq> []" and "containerWidthRef s \<noteq> 0"
    and "numberOfLines p < length (textLinesRef s)" and "0 < numberOfLines p"
    and "reachableCache nfc (moduleCache s)"
    and "profile = profileOf nfc ep (lastVisibleRow p (textLinesRef s))
           (shortWidthCharacters p) (longWidthCharacters p)"
    and "0 < visualLength profile"
    and "estimate = balanceCorrectedEstimate
           (line_width (textLinesRef s ! (numberOfLines p - 1)))
           (visualLength profile) (shortCharCount profile) (emojiCount profile)
           (longCharCount profile)"
  shows "\<exists>s'. calculateTruncatedText nfc ep p s = Inr s'
          \<and> isCalculationCompleteRef s' \<and> isNeedReadMore s'
          \<and> fullTextRef s'
              = truncationWith nfc ep p (textLinesRef s) (containerWidthRef s)
                  (if estimate = 0 then 1 else estimate) estimate"
proof -
  have est: "avgCharWidthOf (line_width (textLinesRef s ! (numberOfLines p - 1))) profile
      = estimate"
    using assms(7,8)
    by (simp add: avgCharWidthOf_def balanceCorrectedEstimate_def balanceDiffHelper_def
        Let_def)
  from calculateTruncatedText_truncates [OF assms(1-5), of ep]
  obtain s' where "calculateTruncatedText nfc ep p s = Inr s'"
    and "isCalculationCompleteRef s'" and "isNeedReadMore s'"
    and "fullTextRef s' = truncationWith nfc ep p (textLinesRef s) (containerWidthRef s)
           (stringWidthCharWidth (avgCharWidthOf
              (line_width (textLinesRef s ! (numberOfLines p - 1))) profile))
           (avgCharWidthOf (line_width (textLinesRef s ! (numberOfLines p - 1))) profile)"
    unfolding assms(6) by blast
  with est show ?thesis
    by (simp add: stringWidthCharWidth_def)
qed

theorem estimate_used_for_truncation_witness:
  "textLinesRef (measuredComponent shortRowLines 105) \<noteq> []
   \<and> containerWidthRef (measuredComponent shortRowLines 105) \<noteq> 0
   \<and> numberOfLines (oneLineProps (utf16 ''iiiiiiiiiix''))
       < length (textLinesRef (measuredComponent shortRowLines 105))
   \<and> 0 < numberOfLines (oneLineProps (utf16 ''iiiiiiiiiix''))
   \<and> reachableCache normalizeOnNFC (moduleCache (measuredComponent shortRowLines 105))
   \<and> profileOf normalizeOnNFC Extended_Pictographic (utf16 ''iiiiiiiiii'') [] []
       = \<lparr>visualLength = 10, shortCharCount = 10, emojiCount = 0, longCharCount = 0\<rparr>
   \<and> balanceCorrectedEstimate 100 10 10 0 0 = 15
   \<and> (\<exists>s'. calculateTruncatedText normalizeOnNFC Extended_Pictographic
              (oneLineProps (utf16 ''iiiiiiiiiix'')) (measuredComponent shortRowLines 105)
            = Inr s'
          \<and> isCalculationCompleteRef s' \<and> isNeedReadMore s'
          \<and> fullTextRef s'
              = truncationWith normalizeOnNFC Extended_Pictographic
                  (oneLineProps (utf16 ''iiiiiiiiiix'')) shortRowLines 105 15 15)"
proof -
  let ?s = "measuredComponent shortRowLines 105"
  let ?p = "oneLineProps (utf16 ''iiiiiiiiiix'')"
  have row: "lastVisibleRow ?p (textLinesRef ?s) = utf16 ''iiiiiiiiii''"
    by (simp add: lastVisibleRow_def oneLineProps_def measuredComponent_def shortRowLines_def
        stripTrailingNewline_def endsWithNewline_def utf16_def)
  have p: "profileOf normalizeOnNFC Extended_Pictographic (utf16 ''iiiiiiiiii'') [] []
        = \<lparr>visualLength = 10, shortCharCount = 10, emojiCount = 0, longCharCount = 0\<rparr>"
    by (simp add: profileOf_def str_eval helper_eval)
  have e: "balanceCorrectedEstimate 100 10 10 0 0 = 15"
    by (simp add: balanceCorrectedEstimate_def)
  have h1: "textLinesRef ?s \<noteq> []"
    by (simp add: measuredComponent_def shortRowLines_def)
  have h2: "containerWidthRef ?s \<noteq> 0"
    by (simp add: measuredComponent_def)
  have h3: "numberOfLines ?p < length (textLinesRef ?s)"
    by (simp add: measuredComponent_def shortRowLines_def oneLineProps_def)
  have h4: "0 < numberOfLines ?p"
    by (simp add: oneLineProps_def)
  have h5: "reachableCache normalizeOnNFC (moduleCache ?s)"
    by (simp add: measuredComponent_def mountedComponent_def reachableCache.initial)
  have s1: "shortWidthCharacters ?p = []" and s2: "longWidthCharacters ?p = []"
    by (simp_all add: oneLineProps_def)
  have h7: "0 < visualLength (profileOf normalizeOnNFC Extended_Pictographic
      (lastVisibleRow ?p (textLinesRef ?s)) (shortWidthCharacters ?p) (longWidthCharacters ?p))"
    by (simp add: row s1 s2 p)
  have w: "line_width (textLinesRef ?s ! (numberOfLines ?p - 1)) = 100"
    by (simp add: measuredComponent_def shortRowLines_def oneLineProps_def)
  have l: "textLinesRef ?s = shortRowLines \<and> containerWidthRef ?s = 105"
    by (simp add: measuredComponent_def)
  note t = estimate_used_for_truncation [OF h1 h2 h3 h4 h5 refl h7 refl,
      unfolded row s1 s2 p w, simplified e]
  show ?thesis
    using h1 h2 h3 h4 h5 t by (simp add: p e l)
qed

section \<open>The last visible line of visual length zero\<close>








section \<open>The width classes\<close>


































section \<open>The slice position and the visual length on concrete texts\<close>

text \<open>
  C4. The claim: the slice position is the least number of trailing units whose widths
  reach the target, one more when the unit before the cut is a plain space
  (\<open>unitsToDropFromEnd\<close>). The code differs in two ways. In the monospaced branch the
  search for the unit before the cut has no loop over the characters after the last emoji,
  so without an emoji it reads the first character of the text: on \<open>ab cd\<close> with unit
  width 1 and target 2 the result is -2, where the unit before the cut is the space and the
  proportional branch returns -3. In the proportional branch the search for the character
  of a unit does not reset \<open>EMOJI_REGEX.lastIndex\<close>, which the other searches do: on an
  emoji, \<open>ib\<close>, an emoji and \<open>c\<close>, the width of \<open>i\<close> is read from the second half of the
  first emoji, 1 and not 0.5, and with target 4.8 the result is -4 where the widths 1, 2,
  1, 0.5 reach 4.8 only with the fifth unit.
\<close>

theorem slice_position_not_least_drop:
  "fst (calculateSlicePositionHelper normalizeOnNFC Extended_Pictographic (utf16 ''ab cd'')
          1 2 True [] [] []) = - 2
   \<and> unitsToDropFromEnd normalizeOnNFC Extended_Pictographic (utf16 ''ab cd'') 1 2 True [] []
       = 3
   \<and> fst (calculateSlicePositionHelper normalizeOnNFC Extended_Pictographic (utf16 ''ab cd'')
          1 2 False [] [] []) = - 3
   \<and> fst (calculateSlicePositionHelper normalizeOnNFC Extended_Pictographic
          [0xD83D, 0xDE00, 0x69, 0x62, 0xD83D, 0xDE00, 0x63] 1 4.8 False [] [] []) = - 4
   \<and> unitsToDropFromEnd normalizeOnNFC Extended_Pictographic
          [0xD83D, 0xDE00, 0x69, 0x62, 0xD83D, 0xDE00, 0x63] 1 4.8 False [] [] = 5"
  by (simp add: str_eval helper_eval spec_eval)

text \<open>
  C5. The claim: for a text without emoji, the visual length is the number of its code
  points. getVisualLengthHelper counts UTF-16 code units: the one ideograph U+20000, which
  is neither pictographic nor a regional indicator, has visual length 2, while the string
  iterator that visualSliceHelper and countShortCharactersHelper use yields one character.
\<close>

theorem visualLength_counts_code_units:
  "visualLength (fst (getVisualLengthHelper normalizeOnNFC Extended_Pictographic
      [0xD840, 0xDC00] [] [] [])) = 2
   \<and> length (codePointStrings (normalizeOnNFC [0xD840, 0xDC00])) = 1
   \<and> \<not> Extended_Pictographic 0x20000 \<and> \<not> Regional_Indicator 0x20000
   \<and> codePointAt [0xD840, 0xDC00] = Some (0x20000, 2)"
  by (simp add: str_eval helper_eval)


end
